theory Spec2Isabelle
  imports Main "HOL-Library.AList"
begin

section \<open>Python library functions the script calls\<close>

text \<open>
  The script \<^verbatim>\<open>Utilities/build-script-helper.py\<close> calls \<^verbatim>\<open>os.path.join\<close>,
  \<^verbatim>\<open>os.path.abspath\<close>, \<^verbatim>\<open>str.join\<close>, \<^verbatim>\<open>str.strip\<close>, \<^verbatim>\<open>shutil.rmtree\<close> and
  \<^verbatim>\<open>subprocess.check_call\<close>/\<^verbatim>\<open>check_output\<close>. They are modelled after CPython's
  \<^verbatim>\<open>posixpath\<close>, \<^verbatim>\<open>shutil\<close> and \<^verbatim>\<open>subprocess\<close> modules (the script runs on Darwin and
  Linux). Strings are \<^typ>\<open>string\<close>, taken as ASCII text.
\<close>

definition startswith_sep :: "string \<Rightarrow> bool" where
  "startswith_sep p = (case p of [] \<Rightarrow> False | c # _ \<Rightarrow> c = CHR ''/'')"

definition endswith_sep :: "string \<Rightarrow> bool" where
  "endswith_sep p = (p \<noteq> [] \<and> last p = CHR ''/'')"

text \<open>
  One round of the loop of \<^verbatim>\<open>posixpath.join(a, *p)\<close>:
  \<^verbatim>\<open>
    for b in p:
        if b.startswith(sep):               path = b
        elif not path or path.endswith(sep): path += b
        else:                                path += sep + b
  \<close>
\<close>

definition join_step :: "string \<Rightarrow> string \<Rightarrow> string" where
  "join_step path b =
     (if startswith_sep b then b
      else if path = [] \<or> endswith_sep path then path @ b
      else path @ ''/'' @ b)"

definition path_join :: "string \<Rightarrow> string list \<Rightarrow> string" where
  "path_join a p = foldl join_step a p"

text \<open>\<^verbatim>\<open>sep.join(xs)\<close> of \<^verbatim>\<open>str\<close>.\<close>

fun str_join :: "string \<Rightarrow> string list \<Rightarrow> string" where
  "str_join sep [] = []"
| "str_join sep [x] = x"
| "str_join sep (x # y # ys) = x @ sep @ str_join sep (y # ys)"

text \<open>\<^verbatim>\<open>path.split('/')\<close>: the pieces between separators, empty pieces kept.\<close>

fun split_sep :: "string \<Rightarrow> string list" where
  "split_sep [] = [[]]"
| "split_sep (c # cs) =
     (if c = CHR ''/'' then [] # split_sep cs
      else (case split_sep cs of [] \<Rightarrow> [[c]] | x # xs \<Rightarrow> (c # x) # xs))"

text \<open>
  \<^verbatim>\<open>posixpath.normpath\<close>. One round of its loop over the components:
  \<^verbatim>\<open>
    if comp in (empty, dot): continue
    if (comp != dotdot or (not initial_slashes and not new_comps) or
         (new_comps and new_comps[-1] == dotdot)):
        new_comps.append(comp)
    elif new_comps:
        new_comps.pop()
  \<close>
\<close>

definition norm_step :: "nat \<Rightarrow> string list \<Rightarrow> string \<Rightarrow> string list" where
  "norm_step initial_slashes new_comps cmp =
     (if cmp = [] \<or> cmp = ''.'' then new_comps
      else if cmp \<noteq> ''..'' \<or> (initial_slashes = 0 \<and> new_comps = [])
              \<or> (new_comps \<noteq> [] \<and> last new_comps = ''..'')
           then new_comps @ [cmp]
      else if new_comps \<noteq> [] then butlast new_comps
      else new_comps)"

text \<open>
  POSIX allows one or two initial slashes and treats three or more as one:
  \<^verbatim>\<open>initial_slashes\<close> is 0, 1 or 2.
\<close>

definition initial_slashes_of :: "string \<Rightarrow> nat" where
  "initial_slashes_of path =
     (if \<not> startswith_sep path then 0
      else if take 2 path = ''//'' \<and> take 3 path \<noteq> ''///'' then 2
      else 1)"

definition normpath :: "string \<Rightarrow> string" where
  "normpath path =
     (if path = [] then ''.''
      else
        let initial_slashes = initial_slashes_of path;
            comps = foldl (norm_step initial_slashes) [] (split_sep path);
            path' = replicate initial_slashes CHR ''/'' @ str_join ''/'' comps
        in if path' = [] then ''.'' else path')"

text \<open>
  \<^verbatim>\<open>posixpath.abspath(path)\<close>, with the result of \<^verbatim>\<open>os.getcwd()\<close> as a parameter:
  \<^verbatim>\<open>
    if not path.startswith('/'):
        path = join(os.getcwd(), path)
    return normpath(path)
  \<close>
\<close>

definition abspath :: "string \<Rightarrow> string \<Rightarrow> string" where
  "abspath cwd path =
     normpath (if \<not> startswith_sep path then path_join cwd [path] else path)"

text \<open>
  \<^verbatim>\<open>str.strip()\<close> removes leading and trailing whitespace; on ASCII text these are the
  characters with codes 9 to 13, 28 to 31 and 32.
\<close>

definition py_isspace :: "char \<Rightarrow> bool" where
  "py_isspace c =
     (let n = of_char c :: nat in (9 \<le> n \<and> n \<le> 13) \<or> (28 \<le> n \<and> n \<le> 32))"

definition strip :: "string \<Rightarrow> string" where
  "strip s = rev (dropWhile py_isspace (rev (dropWhile py_isspace s)))"

section \<open>The world outside the script\<close>

type_synonym env = "(string \<times> string) list"

datatype os_error = ENOENT | EACCES | ENOTEMPTY | EBUSY | EIO

text \<open>What a spawned child did: it exited with a return code and some standard output,
  or it could not be started at all.\<close>

datatype outcome = Exited int string | CannotExec os_error

datatype exn =
    AssertionError string
  | CalledProcessError int "string list"
  | SpawnError os_error
  | RemoveError os_error string

text \<open>
  Everything the script does to the outside, in order, with what came back:
  a line printed, a directory tree removal and the error it met (if any), and the two
  ways of spawning a child, with the command line and the environment handed over.
\<close>

datatype event =
    Print string
  | Rmtree string "os_error option"
  | CheckCall "string list" env outcome
  | CheckOutput "string list" env outcome

text \<open>
  The outside world answers as a function of what has happened so far: the platform
  name of \<^verbatim>\<open>platform.system()\<close>, the working directory, what removing a tree meets,
  and what a spawned command does.
\<close>

record world =
  platform_system :: string
  getcwd :: string
  remove_outcome :: "event list \<Rightarrow> string \<Rightarrow> os_error option"
  run_outcome :: "event list \<Rightarrow> string list \<Rightarrow> env \<Rightarrow> outcome"

text \<open>
  The state of the process: \<^verbatim>\<open>os.environ\<close>, the process-wide environment mapping
  (a Python dict: insertion-ordered, an assignment to an existing key replaces the value
  in place), and the trace of events.
\<close>

record state =
  environ :: env
  trace :: "event list"

type_synonym 'a result = "(exn + 'a) \<times> state"

definition print :: "string \<Rightarrow> state \<Rightarrow> state" where
  "print line s = s\<lparr>trace := trace s @ [Print line]\<rparr>"

text \<open>\<^verbatim>\<open>os.environ[k] = v\<close>.\<close>

definition environ_set :: "string \<Rightarrow> string \<Rightarrow> state \<Rightarrow> state" where
  "environ_set k v s = s\<lparr>environ := AList.update k v (environ s)\<rparr>"

text \<open>
  \<^verbatim>\<open>shutil.rmtree(path, ignore_errors)\<close>: with \<^verbatim>\<open>ignore_errors\<close> true, errors resulting
  from failed removals are ignored; otherwise they are raised.
\<close>

definition rmtree :: "world \<Rightarrow> string \<Rightarrow> bool \<Rightarrow> state \<Rightarrow> unit result" where
  "rmtree w path ignore_errors s =
     (let r = remove_outcome w (trace s) path;
          s' = s\<lparr>trace := trace s @ [Rmtree path r]\<rparr>
      in case r of
           None \<Rightarrow> (Inr (), s')
         | Some e \<Rightarrow> if ignore_errors then (Inr (), s') else (Inl (RemoveError e path), s'))"

text \<open>
  \<^verbatim>\<open>subprocess.check_call(cmd, env=env)\<close>: the child gets \<^verbatim>\<open>env\<close>, or the process
  environment when \<^verbatim>\<open>env\<close> is \<^verbatim>\<open>None\<close>; a non-zero return code raises
  \<^verbatim>\<open>CalledProcessError\<close>.
\<close>

definition env_for_child :: "env option \<Rightarrow> state \<Rightarrow> env" where
  "env_for_child env s = (case env of None \<Rightarrow> environ s | Some e \<Rightarrow> e)"

definition check_call :: "world \<Rightarrow> string list \<Rightarrow> env option \<Rightarrow> state \<Rightarrow> unit result" where
  "check_call w cmd env s =
     (let e = env_for_child env s;
          out = run_outcome w (trace s) cmd e;
          s' = s\<lparr>trace := trace s @ [CheckCall cmd e out]\<rparr>
      in case out of
           CannotExec err \<Rightarrow> (Inl (SpawnError err), s')
         | Exited rc text \<Rightarrow>
             if rc = 0 then (Inr (), s') else (Inl (CalledProcessError rc cmd), s'))"

text \<open>\<^verbatim>\<open>subprocess.check_output(cmd, env=env, universal_newlines=True)\<close> returns the
  child's standard output as text.\<close>

definition check_output :: "world \<Rightarrow> string list \<Rightarrow> env option \<Rightarrow> state \<Rightarrow> string result" where
  "check_output w cmd env s =
     (let e = env_for_child env s;
          out = run_outcome w (trace s) cmd e;
          s' = s\<lparr>trace := trace s @ [CheckOutput cmd e out]\<rparr>
      in case out of
           CannotExec err \<Rightarrow> (Inl (SpawnError err), s')
         | Exited rc text \<Rightarrow>
             if rc = 0 then (Inr text, s') else (Inl (CalledProcessError rc cmd), s'))"

text \<open>An exception that nothing catches ends the Python process with status 1; a script
  that runs to its end exits with status 0.\<close>

definition exit_status :: "exn + 'a \<Rightarrow> int" where
  "exit_status r = (case r of Inl e \<Rightarrow> 1 | Inr v \<Rightarrow> 0)"

section \<open>The script\<close>

text \<open>The namespace that \<^verbatim>\<open>parser.parse_args\<close> returns. \<^verbatim>\<open>--sanitize\<close> has action
  \<^verbatim>\<open>append\<close>: \<^verbatim>\<open>None\<close> when absent, the list of the values given otherwise.\<close>

record args =
  action :: string
  package_path :: string
  toolchain :: string
  ninja_bin :: "string option"
  build_path :: string
  configuration :: string
  sanitize :: "string list option"
  sanitize_all :: bool
  verbose :: bool

text \<open>Python truth of an optional list or string: neither \<^verbatim>\<open>None\<close> nor empty.\<close>

definition truthy :: "'a list option \<Rightarrow> bool" where
  "truthy x = (case x of None \<Rightarrow> False | Some l \<Rightarrow> l \<noteq> [])"

definition items :: "'a list option \<Rightarrow> 'a list" where
  "items x = (case x of None \<Rightarrow> [] | Some l \<Rightarrow> l)"

definition swiftpm :: "world \<Rightarrow> string \<Rightarrow> string \<Rightarrow> string list \<Rightarrow> env option \<Rightarrow> state \<Rightarrow> unit result" where
  "swiftpm w act swift_exec swiftpm_args env s =
     (let cmd = [swift_exec, act] @ swiftpm_args;
          s1 = print (str_join '' '' cmd) s
      in check_call w cmd env s1)"

definition swiftpm_bin_path :: "world \<Rightarrow> string \<Rightarrow> string list \<Rightarrow> env option \<Rightarrow> state \<Rightarrow> string result" where
  "swiftpm_bin_path w swift_exec swiftpm_args env s =
     (let cmd = [swift_exec, ''build'', ''--show-bin-path''] @ swiftpm_args;
          s1 = print (str_join '' '' cmd) s
      in case check_output w cmd env s1 of
           (Inl e, s2) \<Rightarrow> (Inl e, s2)
         | (Inr text, s2) \<Rightarrow> (Inr (strip text), s2))"

definition get_swiftpm_options :: "world \<Rightarrow> args \<Rightarrow> string list" where
  "get_swiftpm_options w a =
     [''--package-path'', package_path a,
      ''--build-path'', build_path a,
      ''--configuration'', configuration a]
     @ (if verbose a then [''--verbose''] else [])
     @ (if truthy (sanitize a)
        then concat (map (\<lambda>san. [''--sanitize='' @ san]) (items (sanitize a)))
        else [])
     @ (if platform_system w \<noteq> ''Darwin''
        then [''-Xcxx'', ''-I'', ''-Xcxx'',
              path_join (toolchain a) [''lib'', ''swift''],
              ''-Xcxx'', ''-I'', ''-Xcxx'',
              path_join (toolchain a) [''lib'', ''swift'', ''Block'']]
        else [])"

text \<open>
  Lines 50 to 64 of \<^verbatim>\<open>handle_invocation\<close>. \<^verbatim>\<open>env = os.environ\<close> binds the name to the
  process-wide mapping itself and takes no copy, so each \<^verbatim>\<open>env[k] = v\<close> is an assignment
  into \<^verbatim>\<open>os.environ\<close>.
\<close>

definition prepare_env :: "args \<Rightarrow> state \<Rightarrow> state" where
  "prepare_env a s0 =
     (let s1 = environ_set ''INDEXSTOREDB_TOOLCHAIN_BIN_PATH'' (toolchain a) s0;
          s2 = (if truthy (ninja_bin a)
                then environ_set ''NINJA_BIN'' (items (ninja_bin a)) s1 else s1);
          s3 = (if truthy (sanitize a) \<and> ''address'' \<in> set (items (sanitize a))
                then environ_set ''ASAN_OPTIONS'' ''detect_leaks=false'' s2 else s2);
          s4 = (if truthy (sanitize a) \<and> ''undefined'' \<in> set (items (sanitize a))
                then
                  let supp = path_join (package_path a) [''Utilities'', ''ubsan_supressions.supp'']
                  in environ_set ''UBSAN_OPTIONS'' (''halt_on_error=true,suppressions='' @ supp) s3
                else s3);
          s5 = (if truthy (sanitize a) \<and> ''thread'' \<in> set (items (sanitize a))
                then environ_set ''INDEXSTOREDB_ENABLED_THREAD_SANITIZER'' ''1'' s4 else s4)
      in s5)"

text \<open>Lines 47 to 79. The \<^verbatim>\<open>env\<close> handed to each child is the mapping as it stands at
  the moment of the call.\<close>

definition handle_invocation :: "world \<Rightarrow> string \<Rightarrow> args \<Rightarrow> state \<Rightarrow> unit result" where
  "handle_invocation w swift_exec a s0 =
     (let swiftpm_args = get_swiftpm_options w a;
          s1 = prepare_env a s0;
          s2 = print (''Cleaning '' @ build_path a) s1
      in case rmtree w (build_path a) True s2 of
           (Inl e, s3) \<Rightarrow> (Inl e, s3)
         | (Inr u, s3) \<Rightarrow>
             if action a = ''build'' then
               swiftpm w ''build'' swift_exec swiftpm_args (Some (environ s3)) s3
             else if action a = ''test'' then
               (case swiftpm_bin_path w swift_exec swiftpm_args (Some (environ s3)) s3 of
                  (Inl e, s4) \<Rightarrow> (Inl e, s4)
                | (Inr bin_path, s4) \<Rightarrow>
                    let tests = path_join bin_path [''isdb-tests''];
                        s5 = print (''Cleaning '' @ tests) s4
                    in case rmtree w tests True s5 of
                         (Inl e, s6) \<Rightarrow> (Inl e, s6)
                       | (Inr u, s6) \<Rightarrow>
                           swiftpm w ''test'' swift_exec (swiftpm_args @ [''--parallel''])
                             (Some (environ s6)) s6)
             else (Inl (AssertionError (''unknown action '' @ [CHR 0x27] @ action a @ [CHR 0x27])), s3))"

text \<open>Lines 109 to 112: the three paths are made absolute.\<close>

definition canonicalize :: "world \<Rightarrow> args \<Rightarrow> args" where
  "canonicalize w a =
     a\<lparr>package_path := abspath (getcwd w) (package_path a),
       build_path := abspath (getcwd w) (build_path a),
       toolchain := abspath (getcwd w) (toolchain a)\<rparr>"

definition swift_exec_of :: "args \<Rightarrow> string" where
  "swift_exec_of a =
     (if toolchain a \<noteq> [] then path_join (toolchain a) [''bin'', ''swift''] else ''swift'')"

definition banner :: "args \<Rightarrow> string \<Rightarrow> string" where
  "banner a short = ''=== '' @ action a @ '' indexstore-db with '' @ short @ '' ===''"

text \<open>\<^verbatim>\<open>main\<close> from line 106 on, applied to the parsed arguments. The namespace is one
  object that the sanitizer passes assign to in turn.\<close>

definition main :: "world \<Rightarrow> args \<Rightarrow> state \<Rightarrow> unit result" where
  "main w parsed s0 =
     (if truthy (sanitize parsed) \<and> sanitize_all parsed
      then (Inl (AssertionError ''cannot combine --sanitize with --sanitize-all''), s0)
      else
        let a0 = canonicalize w parsed;
            swift_exec = swift_exec_of a0
        in case handle_invocation w swift_exec a0 s0 of
             (Inl e, s1) \<Rightarrow> (Inl e, s1)
           | (Inr u, s1) \<Rightarrow>
               if sanitize_all a0 then
                 let base = build_path a0;
                     s2 = print (banner a0 ''asan'') s1;
                     a1 = a0\<lparr>sanitize := Some [''address'']\<rparr>;
                     a2 = a1\<lparr>build_path := path_join base [''test-asan'']\<rparr>
                 in case handle_invocation w swift_exec a2 s2 of
                      (Inl e, s3) \<Rightarrow> (Inl e, s3)
                    | (Inr u, s3) \<Rightarrow>
                        let s4 = print (banner a2 ''tsan'') s3;
                            a3 = a2\<lparr>sanitize := Some [''thread'']\<rparr>;
                            a4 = a3\<lparr>build_path := path_join base [''test-tsan'']\<rparr>
                        in case handle_invocation w swift_exec a4 s4 of
                             (Inl e, s5) \<Rightarrow> (Inl e, s5)
                           | (Inr u, s5) \<Rightarrow>
                               if platform_system w \<noteq> ''Linux'' then
                                 let s6 = print (banner a4 ''ubsan'') s5;
                                     a5 = a4\<lparr>sanitize := Some [''undefined'']\<rparr>;
                                     a6 = a5\<lparr>build_path := path_join base [''test-ubsan'']\<rparr>
                                 in handle_invocation w swift_exec a6 s6
                               else (Inr (), s5)
               else (Inr (), s1))"

section \<open>Notions used to state the properties\<close>

text \<open>What \<^verbatim>\<open>check_call\<close> makes of a child's outcome.\<close>

definition raised :: "outcome \<Rightarrow> string list \<Rightarrow> exn + unit" where
  "raised out cmd =
     (case out of
        CannotExec err \<Rightarrow> Inl (SpawnError err)
      | Exited rc text \<Rightarrow> if rc = 0 then Inr () else Inl (CalledProcessError rc cmd))"

definition succeeded :: "outcome \<Rightarrow> bool" where
  "succeeded out = (case out of Exited rc text \<Rightarrow> rc = 0 | CannotExec err \<Rightarrow> False)"

fun spawn_failed :: "event \<Rightarrow> bool" where
  "spawn_failed (CheckCall cmd e out) = (\<not> succeeded out)"
| "spawn_failed (CheckOutput cmd e out) = (\<not> succeeded out)"
| "spawn_failed (Print line) = False"
| "spawn_failed (Rmtree p r) = False"

text \<open>The command lines run through \<^verbatim>\<open>check_call\<close>, in order.\<close>

fun call_of :: "event \<Rightarrow> string list list" where
  "call_of (CheckCall cmd e out) = [cmd]"
| "call_of (CheckOutput cmd e out) = []"
| "call_of (Print line) = []"
| "call_of (Rmtree p r) = []"

definition check_calls :: "event list \<Rightarrow> string list list" where
  "check_calls evs = concat (map call_of evs)"

text \<open>The environments handed to children, in order.\<close>

fun child_env_of :: "event \<Rightarrow> env list" where
  "child_env_of (CheckCall cmd e out) = [e]"
| "child_env_of (CheckOutput cmd e out) = [e]"
| "child_env_of (Print line) = []"
| "child_env_of (Rmtree p r) = []"

definition child_envs :: "event list \<Rightarrow> env list" where
  "child_envs evs = concat (map child_env_of evs)"

text \<open>The directory removals attempted, in order, each with the error it met.\<close>

fun removal_of :: "event \<Rightarrow> (string \<times> os_error option) list" where
  "removal_of (Rmtree p r) = [(p, r)]"
| "removal_of (Print l) = []"
| "removal_of (CheckCall cmd e out) = []"
| "removal_of (CheckOutput cmd e out) = []"

definition removals :: "event list \<Rightarrow> (string \<times> os_error option) list" where
  "removals evs = concat (map removal_of evs)"

text \<open>
  The banner lines and the commands run through \<^verbatim>\<open>check_call\<close>, in the order in which
  they happened. A banner line is a printed line that starts with \<^verbatim>\<open>=== \<close>.
\<close>

definition is_banner_line :: "string \<Rightarrow> bool" where
  "is_banner_line l = (take 4 l = ''=== '')"

fun milestone_of :: "event \<Rightarrow> (string + string list) list" where
  "milestone_of (Print l) = (if is_banner_line l then [Inl l] else [])"
| "milestone_of (CheckCall cmd e out) = [Inr cmd]"
| "milestone_of (CheckOutput cmd e out) = []"
| "milestone_of (Rmtree p r) = []"

definition milestones :: "event list \<Rightarrow> (string + string list) list" where
  "milestones evs = concat (map milestone_of evs)"

text \<open>The command line of the main action of one request.\<close>

definition main_cmd :: "world \<Rightarrow> string \<Rightarrow> args \<Rightarrow> string list" where
  "main_cmd w swift_exec a =
     [swift_exec, action a] @ get_swiftpm_options w a
     @ (if action a = ''test'' then [''--parallel''] else [])"

text \<open>The data model asks that the three paths of a request be absolute.\<close>

definition absolute_paths :: "args \<Rightarrow> bool" where
  "absolute_paths a =
     (startswith_sep (package_path a) \<and> startswith_sep (build_path a)
      \<and> startswith_sep (toolchain a))"

definition is_sanitize_flag :: "string \<Rightarrow> bool" where
  "is_sanitize_flag f = (take 11 f = ''--sanitize='')"

subsection \<open>The specification's reading of the sanitize-all driver\<close>

text \<open>
  The specification describes the driver as a list of requests run one after the other
  by one executor that stops at the first failure: the base request, then one derived
  request per sanitizer, each with its banner, its one-element sanitizer list and the
  build path \<^verbatim>\<open><basePath>/test-<short name>\<close>, everything else copied from the base.
\<close>

definition spec_derived_request :: "args \<Rightarrow> string \<Rightarrow> string \<Rightarrow> args" where
  "spec_derived_request base san short =
     base\<lparr>sanitize := Some [san],
          build_path := path_join (build_path base) [''test-'' @ short]\<rparr>"

fun spec_run_plan :: "world \<Rightarrow> string \<Rightarrow> (string option \<times> args) list \<Rightarrow> state \<Rightarrow> unit result" where
  "spec_run_plan w swift_exec [] s = (Inr (), s)"
| "spec_run_plan w swift_exec ((b, req) # rest) s =
     (case handle_invocation w swift_exec req (case b of None \<Rightarrow> s | Some line \<Rightarrow> print line s) of
        (Inl e, s') \<Rightarrow> (Inl e, s')
      | (Inr u, s') \<Rightarrow> spec_run_plan w swift_exec rest s')"

definition spec_plan :: "world \<Rightarrow> args \<Rightarrow> (string option \<times> args) list" where
  "spec_plan w base =
     (None, base) #
     (if sanitize_all base
      then [(Some (banner base ''asan''), spec_derived_request base ''address'' ''asan''),
            (Some (banner base ''tsan''), spec_derived_request base ''thread'' ''tsan'')]
           @ (if platform_system w = ''Linux'' then []
              else [(Some (banner base ''ubsan''), spec_derived_request base ''undefined'' ''ubsan'')])
      else [])"

text \<open>
  The shape of the events of a run that stops at the first failure: no child fails before
  the last event; the last event is the main action and its outcome is the result, or a
  failed discovery whose failure is the result, or (for an unknown action only) the
  cleanup before the assertion error.
\<close>

definition run_shape :: "bool \<Rightarrow> exn + unit \<Rightarrow> event list \<Rightarrow> bool" where
  "run_shape known r evs =
     (evs \<noteq> [] \<and> (\<forall>ev\<in>set (butlast evs). \<not> spawn_failed ev)
      \<and> (case last evs of
            CheckCall cmd e out \<Rightarrow> r = raised out cmd
          | CheckOutput cmd e out \<Rightarrow> \<not> succeeded out \<and> r = raised out cmd
          | Print line \<Rightarrow> False
          | Rmtree p q \<Rightarrow> \<not> known \<and> (\<exists>msg. r = Inl (AssertionError msg))))"

subsection \<open>Concrete inputs\<close>

text \<open>The values \<^verbatim>\<open>argparse\<close> gives when only the action and \<^verbatim>\<open>--toolchain\<close> are on the
  command line (lines 85 to 92).\<close>

definition cli_defaults :: "string \<Rightarrow> string \<Rightarrow> args" where
  "cli_defaults act tc =
     \<lparr>action = act, package_path = ''.'', toolchain = tc, ninja_bin = None,
      build_path = ''.build'', configuration = ''debug'', sanitize = None,
      sanitize_all = False, verbose = False\<rparr>"

text \<open>A world where no build directory exists yet and every child exits with the given
  return code, printing a binary path.\<close>

definition plain_world :: "string \<Rightarrow> int \<Rightarrow> world" where
  "plain_world plat rc =
     \<lparr>platform_system = plat, getcwd = ''/work/isdb'',
      remove_outcome = (\<lambda>h p. Some ENOENT),
      run_outcome = (\<lambda>h cmd e. Exited rc (''/work/isdb/.build/debug'' @ [CHR 0x0A]))\<rparr>"

text \<open>A world where every removal is refused for lack of permission.\<close>

definition denied_world :: world where
  "denied_world =
     \<lparr>platform_system = ''Linux'', getcwd = ''/work/isdb'',
      remove_outcome = (\<lambda>h p. Some EACCES),
      run_outcome = (\<lambda>h cmd e. Exited 0 [])\<rparr>"

definition fresh :: state where
  "fresh = \<lparr>environ = [(''PATH'', ''/usr/bin'')], trace = []\<rparr>"

text \<open>Two requests with absolute paths, as \<^verbatim>\<open>main\<close> hands them on.\<close>

definition build_request :: args where
  "build_request = (cli_defaults ''build'' ''/tc'')\<lparr>package_path := ''/p'', build_path := ''/b''\<rparr>"

definition test_request :: args where
  "test_request = (cli_defaults ''test'' ''/tc'')\<lparr>package_path := ''/p'', build_path := ''/b''\<rparr>"

text \<open>Requests as parsed from the command line, with relative paths, asking for every
  sanitizer.\<close>

definition sanitize_all_request :: args where
  "sanitize_all_request = (cli_defaults ''build'' ''/tc'')\<lparr>sanitize_all := True\<rparr>"


section \<open>Properties\<close>

subsection \<open>Paths\<close>

lemma startswith_sep_Nil [simp]: "startswith_sep [] = False"
  by (simp add: startswith_sep_def)

lemma startswith_sep_Cons [simp]: "startswith_sep (c # cs) = (c = CHR ''/'')"
  by (simp add: startswith_sep_def)

lemma startswith_sep_append: "startswith_sep a \<Longrightarrow> startswith_sep (a @ b)"
  by (cases a) simp_all

lemma join_step_absolute: "startswith_sep a \<Longrightarrow> startswith_sep (join_step a b)"
  by (simp add: join_step_def startswith_sep_append)

lemma path_join_absolute: "startswith_sep a \<Longrightarrow> startswith_sep (path_join a bs)"
  unfolding path_join_def
  by (induction bs arbitrary: a) (simp_all add: join_step_absolute)

lemma initial_slashes_pos: "startswith_sep p \<Longrightarrow> 0 < initial_slashes_of p"
  by (simp add: initial_slashes_of_def)

lemma normpath_absolute: "startswith_sep p \<Longrightarrow> startswith_sep (normpath p)"
proof -
  assume a: "startswith_sep p"
  then obtain n where n: "initial_slashes_of p = Suc n"
    using initial_slashes_pos [OF a] by (cases "initial_slashes_of p") simp_all
  from a have "p \<noteq> []" by auto
  then show ?thesis
    by (simp add: normpath_def Let_def n)
qed

lemma abspath_absolute: "startswith_sep cwd \<Longrightarrow> startswith_sep (abspath cwd p)"
  unfolding abspath_def
  by (auto intro!: normpath_absolute path_join_absolute)

subsection \<open>One invocation, step by step\<close>

lemma trace_prepare_env [simp]: "trace (prepare_env a s) = trace s"
  by (simp add: prepare_env_def environ_set_def Let_def)

lemma map_of_environ_set:
  "map_of (environ (environ_set k v s)) = (map_of (environ s))(k \<mapsto> v)"
  by (simp add: environ_set_def update_conv')

lemma rmtree_ignoring:
  "rmtree w p True s =
     (Inr (), s\<lparr>trace := trace s @ [Rmtree p (remove_outcome w (trace s) p)]\<rparr>)"
  by (simp add: rmtree_def Let_def split: option.splits)

lemma swiftpm_eq:
  "swiftpm w act x flags (Some env) s =
     (let cmd = [x, act] @ flags;
          t = trace s @ [Print (str_join '' '' cmd)];
          out = run_outcome w t cmd env
      in (raised out cmd, s\<lparr>trace := t @ [CheckCall cmd env out]\<rparr>))"
  by (simp add: swiftpm_def check_call_def print_def env_for_child_def raised_def Let_def
      split: outcome.splits)

lemma swiftpm_bin_path_eq:
  "swiftpm_bin_path w x flags (Some env) s =
     (let cmd = [x, ''build'', ''--show-bin-path''] @ flags;
          t = trace s @ [Print (str_join '' '' cmd)];
          out = run_outcome w t cmd env;
          s' = s\<lparr>trace := t @ [CheckOutput cmd env out]\<rparr>
      in case out of
           CannotExec err \<Rightarrow> (Inl (SpawnError err), s')
         | Exited rc text \<Rightarrow>
             if rc = 0 then (Inr (strip text), s') else (Inl (CalledProcessError rc cmd), s'))"
  by (simp add: swiftpm_bin_path_def check_output_def print_def env_for_child_def Let_def
      split: outcome.splits)

lemma handle_invocation_build:
  assumes "action a = ''build''"
  shows "handle_invocation w x a s =
     (let env = environ (prepare_env a s);
          cmd = [x, ''build''] @ get_swiftpm_options w a;
          t1 = trace s @ [Print (''Cleaning '' @ build_path a)];
          t2 = t1 @ [Rmtree (build_path a) (remove_outcome w t1 (build_path a)),
                     Print (str_join '' '' cmd)];
          out = run_outcome w t2 cmd env
      in (raised out cmd, \<lparr>environ = env, trace = t2 @ [CheckCall cmd env out]\<rparr>))"
  using assms
  by (simp add: handle_invocation_def rmtree_ignoring swiftpm_eq print_def Let_def)

lemma handle_invocation_test:
  assumes "action a = ''test''"
  shows "handle_invocation w x a s =
     (let env = environ (prepare_env a s);
          flags = get_swiftpm_options w a;
          discover = [x, ''build'', ''--show-bin-path''] @ flags;
          testcmd = [x, ''test''] @ flags @ [''--parallel''];
          t1 = trace s @ [Print (''Cleaning '' @ build_path a)];
          t2 = t1 @ [Rmtree (build_path a) (remove_outcome w t1 (build_path a)),
                     Print (str_join '' '' discover)];
          out1 = run_outcome w t2 discover env;
          t3 = t2 @ [CheckOutput discover env out1]
      in case out1 of
           CannotExec err \<Rightarrow> (Inl (SpawnError err), \<lparr>environ = env, trace = t3\<rparr>)
         | Exited rc text \<Rightarrow>
             if rc \<noteq> 0 then (Inl (CalledProcessError rc discover), \<lparr>environ = env, trace = t3\<rparr>)
             else
               let tests = path_join (strip text) [''isdb-tests''];
                   t4 = t3 @ [Print (''Cleaning '' @ tests)];
                   t5 = t4 @ [Rmtree tests (remove_outcome w t4 tests),
                              Print (str_join '' '' testcmd)];
                   out2 = run_outcome w t5 testcmd env
               in (raised out2 testcmd,
                   \<lparr>environ = env, trace = t5 @ [CheckCall testcmd env out2]\<rparr>))"
proof -
  let ?env = "environ (prepare_env a s)"
  let ?discover = "[x, ''build'', ''--show-bin-path''] @ get_swiftpm_options w a"
  let ?t1 = "trace s @ [Print (''Cleaning '' @ build_path a)]"
  let ?t2 = "?t1 @ [Rmtree (build_path a) (remove_outcome w ?t1 (build_path a)),
                     Print (str_join '' '' ?discover)]"
  show ?thesis
  proof (cases "run_outcome w ?t2 ?discover ?env")
    case (CannotExec err)
    then show ?thesis using assms
      by (simp add: handle_invocation_def rmtree_ignoring swiftpm_bin_path_eq print_def Let_def)
  next
    case (Exited rc outp)
    show ?thesis
    proof (cases "rc = 0")
      case True
      with Exited show ?thesis using assms
        by (simp add: handle_invocation_def rmtree_ignoring swiftpm_bin_path_eq swiftpm_eq
            print_def Let_def)
    next
      case False
      with Exited show ?thesis using assms
        by (simp add: handle_invocation_def rmtree_ignoring swiftpm_bin_path_eq print_def Let_def)
    qed
  qed
qed

lemma handle_invocation_other:
  assumes "action a \<noteq> ''build''" "action a \<noteq> ''test''"
  shows "handle_invocation w x a s =
     (let t1 = trace s @ [Print (''Cleaning '' @ build_path a)]
      in (Inl (AssertionError (''unknown action '' @ [CHR 0x27] @ action a @ [CHR 0x27])),
          \<lparr>environ = environ (prepare_env a s),
           trace = t1 @ [Rmtree (build_path a) (remove_outcome w t1 (build_path a))]\<rparr>))"
  using assms
  by (simp add: handle_invocation_def rmtree_ignoring print_def Let_def)

subsection \<open>Conflicting sanitizer options\<close>

text \<open>
  C6. When the parsed arguments carry a non-empty \<^verbatim>\<open>--sanitize\<close> list together with
  \<^verbatim>\<open>--sanitize-all\<close>, \<^verbatim>\<open>main\<close> raises the assertion error at once: the state is the one
  it started from, so no child was spawned, nothing was removed or printed, and the
  environment was not touched.
\<close>

theorem conflicting_sanitizer_options_rejected:
  "truthy (sanitize parsed) \<Longrightarrow> sanitize_all parsed \<Longrightarrow>
   main w parsed s =
     (Inl (AssertionError ''cannot combine --sanitize with --sanitize-all''), s)"
  by (simp add: main_def)

theorem conflicting_sanitizer_options_rejected_witness:
  "truthy (sanitize ((cli_defaults ''build'' ''/tc'')
             \<lparr>sanitize := Some [''address''], sanitize_all := True\<rparr>))
   \<and> sanitize_all ((cli_defaults ''build'' ''/tc'')
             \<lparr>sanitize := Some [''address''], sanitize_all := True\<rparr>)
   \<and> main (plain_world ''Linux'' 0)
        ((cli_defaults ''build'' ''/tc'')\<lparr>sanitize := Some [''address''], sanitize_all := True\<rparr>)
        fresh
      = (Inl (AssertionError ''cannot combine --sanitize with --sanitize-all''), fresh)"
  using conflicting_sanitizer_options_rejected
    [of "(cli_defaults ''build'' ''/tc'')\<lparr>sanitize := Some [''address''], sanitize_all := True\<rparr>"
        "plain_world ''Linux'' 0" fresh]
  by (simp add: truthy_def cli_defaults_def)

subsection \<open>Events of a trace\<close>

lemma child_envs_append [simp]: "child_envs (xs @ ys) = child_envs xs @ child_envs ys"
  by (simp add: child_envs_def)

lemma check_calls_append [simp]: "check_calls (xs @ ys) = check_calls xs @ check_calls ys"
  by (simp add: check_calls_def)

lemma child_envs_simps [simp]:
  "child_envs [] = []"
  "child_envs (CheckCall c e out # evs) = e # child_envs evs"
  "child_envs (CheckOutput c e out # evs) = e # child_envs evs"
  "child_envs (Print l # evs) = child_envs evs"
  "child_envs (Rmtree p r # evs) = child_envs evs"
  by (simp_all add: child_envs_def)

lemma check_calls_simps [simp]:
  "check_calls [] = []"
  "check_calls (CheckCall c e out # evs) = c # check_calls evs"
  "check_calls (CheckOutput c e out # evs) = check_calls evs"
  "check_calls (Print l # evs) = check_calls evs"
  "check_calls (Rmtree p r # evs) = check_calls evs"
  by (simp_all add: check_calls_def)

lemma removals_append [simp]: "removals (xs @ ys) = removals xs @ removals ys"
  by (simp add: removals_def)

lemma removals_simps [simp]:
  "removals [] = []"
  "removals (ev # evs) = removal_of ev @ removals evs"
  by (simp_all add: removals_def)

lemma milestones_append [simp]: "milestones (xs @ ys) = milestones xs @ milestones ys"
  by (simp add: milestones_def)

lemma milestones_simps [simp]:
  "milestones [] = []"
  "milestones (ev # evs) = milestone_of ev @ milestones evs"
  by (simp_all add: milestones_def)

subsection \<open>Translated flags\<close>

lemma absolute_not_dash: "startswith_sep p \<Longrightarrow> p \<noteq> CHR ''-'' # cs"
  by (cases p) auto

lemma path_join_simple:
  "p \<noteq> [] \<Longrightarrow> \<not> endswith_sep p \<Longrightarrow> path_join p [''lib'', ''swift''] = p @ ''/lib/swift''"
  "p \<noteq> [] \<Longrightarrow> \<not> endswith_sep p \<Longrightarrow> path_join p [''lib'', ''swift'', ''Block''] = p @ ''/lib/swift/Block''"
  by (simp_all add: path_join_def join_step_def endswith_sep_def)

lemma length_sanitize_flags:
  "length (if truthy x then concat (map (\<lambda>san. [''--sanitize='' @ san]) (items x)) else [])
     = length (items x)"
  by (cases x) (simp_all add: truthy_def items_def length_concat comp_def sum_list_triv)

lemma sanitize_flags_not_dash:
  "CHR ''-'' # c # cs \<in> set (if truthy x then concat (map (\<lambda>san. [''--sanitize='' @ san]) (items x)) else [])
     \<Longrightarrow> c = CHR ''-''"
  by (auto split: if_splits)

text \<open>
  C7. On a platform other than Darwin the translated flag list is the Darwin list with
  the two search-path flag groups appended at its end, whatever the sanitizer selection;
  the two paths are \<^verbatim>\<open><toolchain>/lib/swift\<close> and \<^verbatim>\<open><toolchain>/lib/swift/Block\<close>. On Darwin
  the list holds only the package path, build path, configuration, verbosity and sanitizer
  entries, and (for a request with absolute paths whose configuration is not itself one of
  these flags) neither \<^verbatim>\<open>-Xcxx\<close> nor \<^verbatim>\<open>-I\<close> occurs in it.
\<close>

theorem search_path_flags_by_platform:
  "(platform_system w \<noteq> ''Darwin'' \<longrightarrow>
      get_swiftpm_options w a =
        get_swiftpm_options (w\<lparr>platform_system := ''Darwin''\<rparr>) a
        @ [''-Xcxx'', ''-I'', ''-Xcxx'', path_join (toolchain a) [''lib'', ''swift''],
           ''-Xcxx'', ''-I'', ''-Xcxx'', path_join (toolchain a) [''lib'', ''swift'', ''Block'']])
   \<and> (platform_system w = ''Darwin'' \<longrightarrow>
        length (get_swiftpm_options w a)
          = 6 + (if verbose a then 1 else 0) + length (items (sanitize a))
        \<and> (absolute_paths a \<and> configuration a \<noteq> ''-Xcxx'' \<and> configuration a \<noteq> ''-I'' \<longrightarrow>
             ''-Xcxx'' \<notin> set (get_swiftpm_options w a)
             \<and> ''-I'' \<notin> set (get_swiftpm_options w a)))
   \<and> (toolchain a \<noteq> [] \<and> \<not> endswith_sep (toolchain a) \<longrightarrow>
        path_join (toolchain a) [''lib'', ''swift''] = toolchain a @ ''/lib/swift''
        \<and> path_join (toolchain a) [''lib'', ''swift'', ''Block'']
            = toolchain a @ ''/lib/swift/Block'')"
proof (intro conjI impI)
  assume "platform_system w \<noteq> ''Darwin''"
  then show "get_swiftpm_options w a =
        get_swiftpm_options (w\<lparr>platform_system := ''Darwin''\<rparr>) a
        @ [''-Xcxx'', ''-I'', ''-Xcxx'', path_join (toolchain a) [''lib'', ''swift''],
           ''-Xcxx'', ''-I'', ''-Xcxx'', path_join (toolchain a) [''lib'', ''swift'', ''Block'']]"
    by (simp add: get_swiftpm_options_def)
next
  assume "platform_system w = ''Darwin''"
  then show "length (get_swiftpm_options w a)
          = 6 + (if verbose a then 1 else 0) + length (items (sanitize a))"
    using length_sanitize_flags [of "sanitize a"]
    by (simp add: get_swiftpm_options_def del: length_concat)
next
  assume d: "platform_system w = ''Darwin''"
    and h: "absolute_paths a \<and> configuration a \<noteq> ''-Xcxx'' \<and> configuration a \<noteq> ''-I''"
  from h have p: "package_path a \<noteq> ''-Xcxx''" "build_path a \<noteq> ''-Xcxx''"
      "package_path a \<noteq> ''-I''" "build_path a \<noteq> ''-I''"
    by (auto simp: absolute_paths_def dest: absolute_not_dash)
  show "''-Xcxx'' \<notin> set (get_swiftpm_options w a)"
    using d h p sanitize_flags_not_dash [of "CHR ''X''" "''cxx''" "sanitize a"]
    by (auto simp add: get_swiftpm_options_def simp del: set_concat split: if_splits)
  show "''-I'' \<notin> set (get_swiftpm_options w a)"
    using d h p sanitize_flags_not_dash [of "CHR ''I''" "[]" "sanitize a"]
    by (auto simp add: get_swiftpm_options_def simp del: set_concat split: if_splits)
next
  assume "toolchain a \<noteq> [] \<and> \<not> endswith_sep (toolchain a)"
  then show "path_join (toolchain a) [''lib'', ''swift''] = toolchain a @ ''/lib/swift''"
    by (simp add: path_join_simple)
next
  assume "toolchain a \<noteq> [] \<and> \<not> endswith_sep (toolchain a)"
  then show "path_join (toolchain a) [''lib'', ''swift'', ''Block'']
            = toolchain a @ ''/lib/swift/Block''"
    by (simp add: path_join_simple)
qed

theorem search_path_flags_by_platform_witness:
  "platform_system (plain_world ''Linux'' 0) \<noteq> ''Darwin''
   \<and> get_swiftpm_options (plain_world ''Linux'' 0) test_request
       = [''--package-path'', ''/p'', ''--build-path'', ''/b'', ''--configuration'', ''debug'',
          ''-Xcxx'', ''-I'', ''-Xcxx'', ''/tc/lib/swift'',
          ''-Xcxx'', ''-I'', ''-Xcxx'', ''/tc/lib/swift/Block'']
   \<and> platform_system (plain_world ''Darwin'' 0) = ''Darwin''
   \<and> absolute_paths test_request
   \<and> toolchain test_request \<noteq> [] \<and> \<not> endswith_sep (toolchain test_request)
   \<and> length (get_swiftpm_options (plain_world ''Darwin'' 0) test_request) = 6
   \<and> ''-Xcxx'' \<notin> set (get_swiftpm_options (plain_world ''Darwin'' 0) test_request)"
  using search_path_flags_by_platform [of "plain_world ''Linux'' 0" test_request]
    search_path_flags_by_platform [of "plain_world ''Darwin'' 0" test_request]
  by (simp add: plain_world_def test_request_def cli_defaults_def get_swiftpm_options_def
      absolute_paths_def endswith_sep_def truthy_def items_def)

lemma is_sanitize_flag_simps [simp]:
  "is_sanitize_flag (''--sanitize='' @ san)"
  "\<not> is_sanitize_flag ''--package-path''"
  "\<not> is_sanitize_flag ''--build-path''"
  "\<not> is_sanitize_flag ''--configuration''"
  "\<not> is_sanitize_flag ''--verbose''"
  "\<not> is_sanitize_flag ''-Xcxx''"
  "\<not> is_sanitize_flag ''-I''"
  by (simp_all add: is_sanitize_flag_def)

subsection \<open>Order of the steps of a test invocation\<close>

lemma options_no_parallel:
  assumes "absolute_paths a" "configuration a \<noteq> ''--parallel''"
  shows "''--parallel'' \<notin> set (get_swiftpm_options w a)"
proof -
  have "package_path a \<noteq> ''--parallel''" "build_path a \<noteq> ''--parallel''"
    "path_join (toolchain a) [''lib'', ''swift''] \<noteq> ''--parallel''"
    "path_join (toolchain a) [''lib'', ''swift'', ''Block''] \<noteq> ''--parallel''"
    using assms(1) absolute_not_dash path_join_absolute
    by (auto simp: absolute_paths_def)
  then show ?thesis
    using assms(2) by (auto simp add: get_swiftpm_options_def split: if_splits)
qed

lemma test_invocation_trace:
  assumes "action a = ''test''"
  shows "\<exists>r1 out1 rest.
      trace (snd (handle_invocation w x a s)) =
        trace s @ [Print (''Cleaning '' @ build_path a), Rmtree (build_path a) r1,
                   Print (str_join '' '' ([x, ''build'', ''--show-bin-path''] @ get_swiftpm_options w a)),
                   CheckOutput ([x, ''build'', ''--show-bin-path''] @ get_swiftpm_options w a)
                     (environ (prepare_env a s)) out1] @ rest
      \<and> (\<not> succeeded out1 \<longrightarrow> rest = []
            \<and> fst (handle_invocation w x a s)
                = raised out1 ([x, ''build'', ''--show-bin-path''] @ get_swiftpm_options w a))
      \<and> (\<forall>outp. out1 = Exited 0 outp \<longrightarrow>
            (\<exists>r2 out2. rest =
               [Print (''Cleaning '' @ path_join (strip outp) [''isdb-tests'']),
                Rmtree (path_join (strip outp) [''isdb-tests'']) r2,
                Print (str_join '' '' ([x, ''test''] @ get_swiftpm_options w a @ [''--parallel''])),
                CheckCall ([x, ''test''] @ get_swiftpm_options w a @ [''--parallel''])
                  (environ (prepare_env a s)) out2]
               \<and> fst (handle_invocation w x a s)
                   = raised out2 ([x, ''test''] @ get_swiftpm_options w a @ [''--parallel''])))"
proof -
  let ?env = "environ (prepare_env a s)"
  let ?discover = "[x, ''build'', ''--show-bin-path''] @ get_swiftpm_options w a"
  let ?t1 = "trace s @ [Print (''Cleaning '' @ build_path a)]"
  let ?t2 = "?t1 @ [Rmtree (build_path a) (remove_outcome w ?t1 (build_path a)),
                     Print (str_join '' '' ?discover)]"
  show ?thesis
  proof (cases "run_outcome w ?t2 ?discover ?env")
    case (CannotExec err)
    then show ?thesis using assms
      by (simp add: handle_invocation_test Let_def succeeded_def raised_def)
  next
    case (Exited rc outp)
    show ?thesis
    proof (cases "rc = 0")
      case True
      with Exited show ?thesis using assms
        by (simp add: handle_invocation_test Let_def succeeded_def)
    next
      case False
      with Exited show ?thesis using assms
        by (simp add: handle_invocation_test Let_def succeeded_def raised_def)
    qed
  qed
qed

text \<open>
  C8. For the action \<^verbatim>\<open>test\<close> the events are, in this order: the build directory is
  removed; the discovery command \<^verbatim>\<open>build --show-bin-path\<close> runs with the translated
  flags as they are (no \<^verbatim>\<open>--parallel\<close> is appended, and for absolute paths and a
  configuration other than \<^verbatim>\<open>--parallel\<close> none occurs in them); when discovery succeeds,
  the directory \<^verbatim>\<open>isdb-tests\<close> under the stripped output is removed, and only then
  \<^verbatim>\<open>test\<close> runs with the translated flags followed by \<^verbatim>\<open>--parallel\<close>. When discovery
  fails nothing more happens and its failure is the result.
\<close>

theorem test_invocation_step_order:
  assumes "action a = ''test''"
  shows "(\<exists>r1 out1 rest.
      trace (snd (handle_invocation w x a s)) =
        trace s @ [Print (''Cleaning '' @ build_path a), Rmtree (build_path a) r1,
                   Print (str_join '' '' ([x, ''build'', ''--show-bin-path''] @ get_swiftpm_options w a)),
                   CheckOutput ([x, ''build'', ''--show-bin-path''] @ get_swiftpm_options w a)
                     (environ (prepare_env a s)) out1] @ rest
      \<and> (\<not> succeeded out1 \<longrightarrow> rest = []
            \<and> fst (handle_invocation w x a s)
                = raised out1 ([x, ''build'', ''--show-bin-path''] @ get_swiftpm_options w a))
      \<and> (\<forall>outp. out1 = Exited 0 outp \<longrightarrow>
            (\<exists>r2 out2. rest =
               [Print (''Cleaning '' @ path_join (strip outp) [''isdb-tests'']),
                Rmtree (path_join (strip outp) [''isdb-tests'']) r2,
                Print (str_join '' '' ([x, ''test''] @ get_swiftpm_options w a @ [''--parallel''])),
                CheckCall ([x, ''test''] @ get_swiftpm_options w a @ [''--parallel''])
                  (environ (prepare_env a s)) out2]
               \<and> fst (handle_invocation w x a s)
                   = raised out2 ([x, ''test''] @ get_swiftpm_options w a @ [''--parallel'']))))
    \<and> (absolute_paths a \<and> configuration a \<noteq> ''--parallel'' \<longrightarrow>
         ''--parallel'' \<notin> set (get_swiftpm_options w a))"
  by (rule conjI [OF test_invocation_trace [OF assms]]) (simp add: options_no_parallel)

theorem test_invocation_step_order_witness:
  "action test_request = ''test''
   \<and> absolute_paths test_request \<and> configuration test_request \<noteq> ''--parallel''
   \<and> ''--parallel'' \<notin> set (get_swiftpm_options (plain_world ''Darwin'' 0) test_request)
   \<and> trace (snd (handle_invocation (plain_world ''Darwin'' 0) ''/tc/bin/swift'' test_request fresh))
      = [Print ''Cleaning /b'',
         Rmtree ''/b'' (Some ENOENT),
         Print ''/tc/bin/swift build --show-bin-path --package-path /p --build-path /b --configuration debug'',
         CheckOutput [''/tc/bin/swift'', ''build'', ''--show-bin-path'', ''--package-path'', ''/p'',
                      ''--build-path'', ''/b'', ''--configuration'', ''debug'']
           [(''PATH'', ''/usr/bin''), (''INDEXSTOREDB_TOOLCHAIN_BIN_PATH'', ''/tc'')]
           (Exited 0 (''/work/isdb/.build/debug'' @ [CHR 0x0A])),
         Print ''Cleaning /work/isdb/.build/debug/isdb-tests'',
         Rmtree ''/work/isdb/.build/debug/isdb-tests'' (Some ENOENT),
         Print ''/tc/bin/swift test --package-path /p --build-path /b --configuration debug --parallel'',
         CheckCall [''/tc/bin/swift'', ''test'', ''--package-path'', ''/p'',
                    ''--build-path'', ''/b'', ''--configuration'', ''debug'', ''--parallel'']
           [(''PATH'', ''/usr/bin''), (''INDEXSTOREDB_TOOLCHAIN_BIN_PATH'', ''/tc'')]
           (Exited 0 (''/work/isdb/.build/debug'' @ [CHR 0x0A]))]"
  using test_invocation_step_order [of test_request "plain_world ''Darwin'' 0" "''/tc/bin/swift''" fresh]
  by (simp add: handle_invocation_test test_request_def cli_defaults_def plain_world_def
      fresh_def absolute_paths_def get_swiftpm_options_def truthy_def items_def
      prepare_env_def environ_set_def raised_def Let_def
      strip_def py_isspace_def path_join_def join_step_def endswith_sep_def)

subsection \<open>The whole run as a list of requests\<close>

lemma canonicalize_fields [simp]:
  "action (canonicalize w a) = action a"
  "sanitize (canonicalize w a) = sanitize a"
  "sanitize_all (canonicalize w a) = sanitize_all a"
  "package_path (canonicalize w a) = abspath (getcwd w) (package_path a)"
  "build_path (canonicalize w a) = abspath (getcwd w) (build_path a)"
  "toolchain (canonicalize w a) = abspath (getcwd w) (toolchain a)"
  by (simp_all add: canonicalize_def)

lemma result_case_id:
  "(case m of (Inl e, s') \<Rightarrow> (Inl e, s') | (Inr u, s') \<Rightarrow> (Inr (), s')) = (m :: unit result)"
  by (simp split: prod.splits sum.splits)

lemma main_from_base:
  assumes "\<not> (truthy (sanitize parsed) \<and> sanitize_all parsed)"
  shows "main w parsed s =
           spec_run_plan w (swift_exec_of (canonicalize w parsed))
             (spec_plan w (canonicalize w parsed)) s"
proof -
  define base where "base = canonicalize w parsed"
  define x where "x = swift_exec_of base"
  have sa: "sanitize_all base = sanitize_all parsed"
    by (simp add: base_def)
  have c: "(truthy (sanitize parsed) \<and> sanitize_all parsed) = False"
    using assms by simp
  show ?thesis
    unfolding main_def c base_def [symmetric] Let_def x_def [symmetric]
    by (simp add: sa result_case_id spec_plan_def spec_derived_request_def banner_def
        cong del: prod.case_cong_weak sum.case_cong_weak if_weak_cong)
qed


lemma succeeded_raised: "succeeded out \<Longrightarrow> raised out cmd = Inr ()"
  by (cases out) (simp_all add: succeeded_def raised_def)

lemma raised_ok_iff: "raised out cmd = Inr () \<longleftrightarrow> succeeded out"
  by (cases out) (simp_all add: succeeded_def raised_def)

lemma handle_invocation_success:
  assumes ok: "\<forall>h c e. succeeded (run_outcome w h c e)"
    and act: "action a = ''build'' \<or> action a = ''test''"
  shows "fst (handle_invocation w x a s) = Inr ()
       \<and> check_calls (trace (snd (handle_invocation w x a s)))
           = check_calls (trace s) @ [main_cmd w x a]"
  using act
proof
  assume b: "action a = ''build''"
  then show ?thesis
    using ok by (simp add: handle_invocation_build Let_def succeeded_raised main_cmd_def)
next
  assume t: "action a = ''test''"
  let ?env = "environ (prepare_env a s)"
  let ?discover = "[x, ''build'', ''--show-bin-path''] @ get_swiftpm_options w a"
  let ?t1 = "trace s @ [Print (''Cleaning '' @ build_path a)]"
  let ?t2 = "?t1 @ [Rmtree (build_path a) (remove_outcome w ?t1 (build_path a)),
                     Print (str_join '' '' ?discover)]"
  have "succeeded (run_outcome w ?t2 ?discover ?env)"
    using ok by blast
  then obtain outp where o: "run_outcome w ?t2 ?discover ?env = Exited 0 outp"
    by (cases "run_outcome w ?t2 ?discover ?env") (simp_all add: succeeded_def)
  show ?thesis
    using t o ok by (simp add: handle_invocation_test Let_def succeeded_raised main_cmd_def)
qed

lemma spec_run_plan_success:
  assumes ok: "\<forall>h c e. succeeded (run_outcome w h c e)"
    and act: "\<forall>(b, req)\<in>set plan. action req = ''build'' \<or> action req = ''test''"
  shows "fst (spec_run_plan w x plan s) = Inr ()
       \<and> check_calls (trace (snd (spec_run_plan w x plan s)))
           = check_calls (trace s) @ map (\<lambda>(b, req). main_cmd w x req) plan"
  using act
proof (induction plan arbitrary: s)
  case Nil
  then show ?case by simp
next
  case (Cons br plan)
  obtain b req where br: "br = (b, req)" by (cases br)
  define s0 where "s0 = (case b of None \<Rightarrow> s | Some line \<Rightarrow> print line s)"
  have s0: "check_calls (trace s0) = check_calls (trace s)"
    by (cases b) (simp_all add: s0_def print_def)
  from Cons.prems br have a: "action req = ''build'' \<or> action req = ''test''"
    by simp
  obtain s1 where h: "handle_invocation w x req s0 = (Inr (), s1)"
    and c1: "check_calls (trace s1) = check_calls (trace s0) @ [main_cmd w x req]"
    using handle_invocation_success [OF ok a, of x s0]
    by (cases "handle_invocation w x req s0") auto
  from Cons.prems have "\<forall>(b, req)\<in>set plan. action req = ''build'' \<or> action req = ''test''"
    by simp
  from Cons.IH [OF this, of s1] show ?case
    using h c1 s0 by (simp add: br s0_def [symmetric])
qed





lemma canonicalize_absolute:
  "startswith_sep (getcwd w) \<Longrightarrow> absolute_paths (canonicalize w a)"
  by (simp add: absolute_paths_def abspath_absolute)



lemma swift_exec_absolute: "absolute_paths a \<Longrightarrow> startswith_sep (swift_exec_of a)"
  by (auto simp add: swift_exec_of_def absolute_paths_def path_join_absolute)

lemma cleaning_not_banner [simp]: "\<not> is_banner_line (CHR ''C'' # p)"
  by (simp add: is_banner_line_def)

lemma absolute_not_banner: "startswith_sep l \<Longrightarrow> \<not> is_banner_line l"
  by (cases l) (auto simp add: is_banner_line_def)

lemma str_join_absolute: "startswith_sep x \<Longrightarrow> startswith_sep (str_join sep (x # ys))"
  by (cases ys) (simp_all add: startswith_sep_append)

lemma command_line_not_banner:
  "startswith_sep x \<Longrightarrow> \<not> is_banner_line (x @ rest)"
  by (rule absolute_not_banner [OF startswith_sep_append])

lemma banner_is_banner_line [simp]: "is_banner_line (banner a short)"
  by (simp add: is_banner_line_def banner_def)

lemma handle_invocation_milestones:
  assumes ok: "\<forall>h c e. succeeded (run_outcome w h c e)"
    and act: "action a = ''build'' \<or> action a = ''test''"
    and x: "startswith_sep x"
  shows "milestones (trace (snd (handle_invocation w x a s)))
           = milestones (trace s) @ [Inr (main_cmd w x a)]"
  using act
proof
  assume b: "action a = ''build''"
  then show ?thesis
    using x
    by (simp add: handle_invocation_build Let_def main_cmd_def command_line_not_banner)
next
  assume t: "action a = ''test''"
  let ?env = "environ (prepare_env a s)"
  let ?discover = "[x, ''build'', ''--show-bin-path''] @ get_swiftpm_options w a"
  let ?t1 = "trace s @ [Print (''Cleaning '' @ build_path a)]"
  let ?t2 = "?t1 @ [Rmtree (build_path a) (remove_outcome w ?t1 (build_path a)),
                     Print (str_join '' '' ?discover)]"
  have "succeeded (run_outcome w ?t2 ?discover ?env)"
    using ok by blast
  then obtain outp where o: "run_outcome w ?t2 ?discover ?env = Exited 0 outp"
    by (cases "run_outcome w ?t2 ?discover ?env") (simp_all add: succeeded_def)
  show ?thesis
    using t o x
    by (simp add: handle_invocation_test Let_def main_cmd_def command_line_not_banner)
qed

lemma spec_run_plan_milestones:
  assumes ok: "\<forall>h c e. succeeded (run_outcome w h c e)"
    and x: "startswith_sep x"
    and act: "\<forall>(b, req)\<in>set plan. (action req = ''build'' \<or> action req = ''test'')
                \<and> (\<forall>l. b = Some l \<longrightarrow> is_banner_line l)"
  shows "milestones (trace (snd (spec_run_plan w x plan s)))
           = milestones (trace s)
             @ concat (map (\<lambda>(b, req). (case b of None \<Rightarrow> [] | Some l \<Rightarrow> [Inl l])
                                         @ [Inr (main_cmd w x req)]) plan)"
  using act
proof (induction plan arbitrary: s)
  case Nil
  then show ?case by simp
next
  case (Cons br plan)
  obtain b req where br: "br = (b, req)" by (cases br)
  define s0 where "s0 = (case b of None \<Rightarrow> s | Some line \<Rightarrow> print line s)"
  from Cons.prems br have a: "action req = ''build'' \<or> action req = ''test''"
    and bl: "\<forall>l. b = Some l \<longrightarrow> is_banner_line l"
    by simp_all
  have s0: "milestones (trace s0)
              = milestones (trace s) @ (case b of None \<Rightarrow> [] | Some l \<Rightarrow> [Inl l])"
    using bl by (cases b) (simp_all add: s0_def print_def)
  obtain s1 where h: "handle_invocation w x req s0 = (Inr (), s1)"
    using handle_invocation_success [OF ok a, of x s0]
    by (cases "handle_invocation w x req s0") auto
  have m1: "milestones (trace s1) = milestones (trace s0) @ [Inr (main_cmd w x req)]"
    using handle_invocation_milestones [OF ok a x, of s0] h by simp
  from Cons.prems have "\<forall>(b, req)\<in>set plan. (action req = ''build'' \<or> action req = ''test'')
                \<and> (\<forall>l. b = Some l \<longrightarrow> is_banner_line l)"
    by simp
  from Cons.IH [OF this, of s1] show ?case
    using h m1 s0 by (simp add: br s0_def [symmetric])
qed

text \<open>
  C1. With \<^verbatim>\<open>--sanitize-all\<close> (and no \<^verbatim>\<open>--sanitize\<close>), \<^verbatim>\<open>main\<close> is the executor run over
  this list, stopping at the first failure: the base request, once and first; then, each
  after its banner \<^verbatim>\<open>=== <action> indexstore-db with <short name> ===\<close>, the request
  derived from the base for \<^verbatim>\<open>address\<close> with build path \<^verbatim>\<open><basePath>/test-asan\<close>, for
  \<^verbatim>\<open>thread\<close> with \<^verbatim>\<open><basePath>/test-tsan\<close>, and, unless the platform is Linux, for
  \<^verbatim>\<open>undefined\<close> with \<^verbatim>\<open><basePath>/test-ubsan\<close>; a derived request is the base request with
  only the sanitizer list and the build path replaced. When every child succeeds, the
  commands of the main action that were run are exactly those of these requests, in this
  order, three on Linux and four elsewhere; and (the working directory being absolute) the
  banner lines printed and the main commands run interleave as base command, asan banner,
  address command, tsan banner, thread command and, off Linux, ubsan banner, undefined
  command.
\<close>

theorem sanitize_all_runs_base_then_each_sanitizer:
  assumes "sanitize_all parsed" and "\<not> truthy (sanitize parsed)"
  shows "main w parsed s =
      spec_run_plan w (swift_exec_of (canonicalize w parsed))
        ([(None, canonicalize w parsed),
          (Some (''=== '' @ action parsed @ '' indexstore-db with asan ===''),
           spec_derived_request (canonicalize w parsed) ''address'' ''asan''),
          (Some (''=== '' @ action parsed @ '' indexstore-db with tsan ===''),
           spec_derived_request (canonicalize w parsed) ''thread'' ''tsan'')]
         @ (if platform_system w = ''Linux'' then []
            else [(Some (''=== '' @ action parsed @ '' indexstore-db with ubsan ===''),
                   spec_derived_request (canonicalize w parsed) ''undefined'' ''ubsan'')])) s
    \<and> ((\<forall>h c e. succeeded (run_outcome w h c e))
         \<and> (action parsed = ''build'' \<or> action parsed = ''test'') \<longrightarrow>
        fst (main w parsed s) = Inr ()
        \<and> check_calls (trace (snd (main w parsed s)))
            = check_calls (trace s)
              @ map (main_cmd w (swift_exec_of (canonicalize w parsed)))
                  ([canonicalize w parsed,
                    spec_derived_request (canonicalize w parsed) ''address'' ''asan'',
                    spec_derived_request (canonicalize w parsed) ''thread'' ''tsan'']
                   @ (if platform_system w = ''Linux'' then []
                      else [spec_derived_request (canonicalize w parsed) ''undefined'' ''ubsan''])))
    \<and> ((\<forall>h c e. succeeded (run_outcome w h c e))
         \<and> (action parsed = ''build'' \<or> action parsed = ''test'')
         \<and> startswith_sep (getcwd w) \<longrightarrow>
        milestones (trace (snd (main w parsed s)))
          = milestones (trace s)
            @ [Inr (main_cmd w (swift_exec_of (canonicalize w parsed)) (canonicalize w parsed)),
               Inl (''=== '' @ action parsed @ '' indexstore-db with asan ===''),
               Inr (main_cmd w (swift_exec_of (canonicalize w parsed))
                      (spec_derived_request (canonicalize w parsed) ''address'' ''asan'')),
               Inl (''=== '' @ action parsed @ '' indexstore-db with tsan ===''),
               Inr (main_cmd w (swift_exec_of (canonicalize w parsed))
                      (spec_derived_request (canonicalize w parsed) ''thread'' ''tsan''))]
            @ (if platform_system w = ''Linux'' then []
               else [Inl (''=== '' @ action parsed @ '' indexstore-db with ubsan ===''),
                     Inr (main_cmd w (swift_exec_of (canonicalize w parsed))
                            (spec_derived_request (canonicalize w parsed) ''undefined'' ''ubsan''))]))"
proof -
  have nc: "\<not> (truthy (sanitize parsed) \<and> sanitize_all parsed)"
    using assms(2) by simp
  have m: "main w parsed s =
      spec_run_plan w (swift_exec_of (canonicalize w parsed))
        (spec_plan w (canonicalize w parsed)) s"
    by (rule main_from_base [OF nc])
  have b: "banner (canonicalize w parsed) short
             = ''=== '' @ action parsed @ '' indexstore-db with '' @ short @ '' ===''" for short
    by (simp add: banner_def)
  have p: "spec_plan w (canonicalize w parsed) =
        [(None, canonicalize w parsed),
          (Some (''=== '' @ action parsed @ '' indexstore-db with asan ===''),
           spec_derived_request (canonicalize w parsed) ''address'' ''asan''),
          (Some (''=== '' @ action parsed @ '' indexstore-db with tsan ===''),
           spec_derived_request (canonicalize w parsed) ''thread'' ''tsan'')]
         @ (if platform_system w = ''Linux'' then []
            else [(Some (''=== '' @ action parsed @ '' indexstore-db with ubsan ===''),
                   spec_derived_request (canonicalize w parsed) ''undefined'' ''ubsan'')])"
    using assms(1) by (simp add: spec_plan_def b)
  have acts: "action parsed = ''build'' \<or> action parsed = ''test'' \<Longrightarrow>
      \<forall>(b, req)\<in>set (spec_plan w (canonicalize w parsed)).
         action req = ''build'' \<or> action req = ''test''"
    by (auto simp add: spec_plan_def spec_derived_request_def split: if_splits)
  have acts_banners: "action parsed = ''build'' \<or> action parsed = ''test'' \<Longrightarrow>
      \<forall>(b, req)\<in>set (spec_plan w (canonicalize w parsed)).
         (action req = ''build'' \<or> action req = ''test'')
         \<and> (\<forall>l. b = Some l \<longrightarrow> is_banner_line l)"
    by (auto simp add: spec_plan_def spec_derived_request_def split: if_splits)
  show ?thesis
  proof (intro conjI impI)
    show "main w parsed s =
      spec_run_plan w (swift_exec_of (canonicalize w parsed))
        ([(None, canonicalize w parsed),
          (Some (''=== '' @ action parsed @ '' indexstore-db with asan ===''),
           spec_derived_request (canonicalize w parsed) ''address'' ''asan''),
          (Some (''=== '' @ action parsed @ '' indexstore-db with tsan ===''),
           spec_derived_request (canonicalize w parsed) ''thread'' ''tsan'')]
         @ (if platform_system w = ''Linux'' then []
            else [(Some (''=== '' @ action parsed @ '' indexstore-db with ubsan ===''),
                   spec_derived_request (canonicalize w parsed) ''undefined'' ''ubsan'')])) s"
      using m p by simp
  next
    assume h: "(\<forall>h c e. succeeded (run_outcome w h c e))
         \<and> (action parsed = ''build'' \<or> action parsed = ''test'')"
    from spec_run_plan_success [OF conjunct1 [OF h] acts [OF conjunct2 [OF h]]]
    show "fst (main w parsed s) = Inr ()"
      by (simp add: m)
  next
    assume h: "(\<forall>h c e. succeeded (run_outcome w h c e))
         \<and> (action parsed = ''build'' \<or> action parsed = ''test'')"
    from spec_run_plan_success [OF conjunct1 [OF h] acts [OF conjunct2 [OF h]],
        of "swift_exec_of (canonicalize w parsed)" s]
    have "check_calls (trace (snd (main w parsed s)))
            = check_calls (trace s)
              @ map (\<lambda>(b, req). main_cmd w (swift_exec_of (canonicalize w parsed)) req)
                  (spec_plan w (canonicalize w parsed))"
      by (simp add: m)
    then show "check_calls (trace (snd (main w parsed s)))
            = check_calls (trace s)
              @ map (main_cmd w (swift_exec_of (canonicalize w parsed)))
                  ([canonicalize w parsed,
                    spec_derived_request (canonicalize w parsed) ''address'' ''asan'',
                    spec_derived_request (canonicalize w parsed) ''thread'' ''tsan'']
                   @ (if platform_system w = ''Linux'' then []
                      else [spec_derived_request (canonicalize w parsed) ''undefined'' ''ubsan'']))"
      by (simp add: p)
  next
    assume h: "(\<forall>h c e. succeeded (run_outcome w h c e))
         \<and> (action parsed = ''build'' \<or> action parsed = ''test'')
         \<and> startswith_sep (getcwd w)"
    then have ok: "\<forall>h c e. succeeded (run_outcome w h c e)"
      and act: "action parsed = ''build'' \<or> action parsed = ''test''"
      and cwd: "startswith_sep (getcwd w)"
      by simp_all
    have x: "startswith_sep (swift_exec_of (canonicalize w parsed))"
      by (rule swift_exec_absolute [OF canonicalize_absolute [OF cwd]])
    from spec_run_plan_milestones [OF ok x acts_banners [OF act], of s]
    have "milestones (trace (snd (main w parsed s)))
           = milestones (trace s)
             @ concat (map (\<lambda>(b, req). (case b of None \<Rightarrow> [] | Some l \<Rightarrow> [Inl l])
                              @ [Inr (main_cmd w (swift_exec_of (canonicalize w parsed)) req)])
                        (spec_plan w (canonicalize w parsed)))"
      by (simp add: m)
    then show "milestones (trace (snd (main w parsed s)))
          = milestones (trace s)
            @ [Inr (main_cmd w (swift_exec_of (canonicalize w parsed)) (canonicalize w parsed)),
               Inl (''=== '' @ action parsed @ '' indexstore-db with asan ===''),
               Inr (main_cmd w (swift_exec_of (canonicalize w parsed))
                      (spec_derived_request (canonicalize w parsed) ''address'' ''asan'')),
               Inl (''=== '' @ action parsed @ '' indexstore-db with tsan ===''),
               Inr (main_cmd w (swift_exec_of (canonicalize w parsed))
                      (spec_derived_request (canonicalize w parsed) ''thread'' ''tsan''))]
            @ (if platform_system w = ''Linux'' then []
               else [Inl (''=== '' @ action parsed @ '' indexstore-db with ubsan ===''),
                     Inr (main_cmd w (swift_exec_of (canonicalize w parsed))
                            (spec_derived_request (canonicalize w parsed) ''undefined'' ''ubsan''))])"
      by (simp add: p)
  qed
qed

lemma canonical_sanitize_all_request:
  "canonicalize (plain_world plat rc) sanitize_all_request =
     sanitize_all_request\<lparr>package_path := ''/work/isdb'', build_path := ''/work/isdb/.build''\<rparr>"
  by (simp add: canonicalize_def plain_world_def sanitize_all_request_def cli_defaults_def
      abspath_def normpath_def path_join_def join_step_def endswith_sep_def
      initial_slashes_of_def norm_step_def Let_def)

theorem sanitize_all_runs_base_then_each_sanitizer_witness:
  "sanitize_all sanitize_all_request \<and> \<not> truthy (sanitize sanitize_all_request)
   \<and> (\<forall>h c e. succeeded (run_outcome (plain_world ''Linux'' 0) h c e))
   \<and> (action sanitize_all_request = ''build'' \<or> action sanitize_all_request = ''test'')
   \<and> startswith_sep (getcwd (plain_world ''Linux'' 0))
   \<and> fst (main (plain_world ''Linux'' 0) sanitize_all_request fresh) = Inr ()
   \<and> map (\<lambda>cmd. take 6 cmd @ filter is_sanitize_flag cmd)
        (check_calls (trace (snd (main (plain_world ''Linux'' 0) sanitize_all_request fresh))))
      = [[''/tc/bin/swift'', ''build'', ''--package-path'', ''/work/isdb'',
          ''--build-path'', ''/work/isdb/.build''],
         [''/tc/bin/swift'', ''build'', ''--package-path'', ''/work/isdb'',
          ''--build-path'', ''/work/isdb/.build/test-asan'', ''--sanitize=address''],
         [''/tc/bin/swift'', ''build'', ''--package-path'', ''/work/isdb'',
          ''--build-path'', ''/work/isdb/.build/test-tsan'', ''--sanitize=thread'']]
   \<and> map (case_sum (\<lambda>line. line) (\<lambda>cmd. cmd ! 5))
        (milestones (trace (snd (main (plain_world ''Linux'' 0) sanitize_all_request fresh))))
      = [''/work/isdb/.build'',
         ''=== build indexstore-db with asan ==='', ''/work/isdb/.build/test-asan'',
         ''=== build indexstore-db with tsan ==='', ''/work/isdb/.build/test-tsan'']
   \<and> milestones (trace (snd (main (plain_world ''Darwin'' 0) sanitize_all_request fresh)))
      = [Inr [''/tc/bin/swift'', ''build'', ''--package-path'', ''/work/isdb'',
              ''--build-path'', ''/work/isdb/.build'', ''--configuration'', ''debug''],
         Inl ''=== build indexstore-db with asan ==='',
         Inr [''/tc/bin/swift'', ''build'', ''--package-path'', ''/work/isdb'',
              ''--build-path'', ''/work/isdb/.build/test-asan'', ''--configuration'', ''debug'',
              ''--sanitize=address''],
         Inl ''=== build indexstore-db with tsan ==='',
         Inr [''/tc/bin/swift'', ''build'', ''--package-path'', ''/work/isdb'',
              ''--build-path'', ''/work/isdb/.build/test-tsan'', ''--configuration'', ''debug'',
              ''--sanitize=thread''],
         Inl ''=== build indexstore-db with ubsan ==='',
         Inr [''/tc/bin/swift'', ''build'', ''--package-path'', ''/work/isdb'',
              ''--build-path'', ''/work/isdb/.build/test-ubsan'', ''--configuration'', ''debug'',
              ''--sanitize=undefined'']]"
proof -
  have a: "sanitize_all sanitize_all_request" "\<not> truthy (sanitize sanitize_all_request)"
    "action sanitize_all_request = ''build'' \<or> action sanitize_all_request = ''test''"
    by (simp_all add: sanitize_all_request_def cli_defaults_def truthy_def)
  have ab: "action sanitize_all_request = ''build''"
    by (simp add: sanitize_all_request_def cli_defaults_def)
  have ok: "\<forall>h c e. succeeded (run_outcome (plain_world plat 0) h c e)" for plat
    by (simp add: plain_world_def succeeded_def)
  have cwd: "startswith_sep (getcwd (plain_world plat 0))" for plat
    by (simp add: plain_world_def)
  note l = sanitize_all_runs_base_then_each_sanitizer [OF a(1,2), of "plain_world ''Linux'' 0" fresh]
  note d = sanitize_all_runs_base_then_each_sanitizer [OF a(1,2), of "plain_world ''Darwin'' 0" fresh]
  have pl: "platform_system (plain_world plat rc) = plat" for plat rc
    by (simp add: plain_world_def)
  from l ok a(3) have l1: "fst (main (plain_world ''Linux'' 0) sanitize_all_request fresh) = Inr ()"
    by blast
  from l ok a(3) have l2:
    "check_calls (trace (snd (main (plain_world ''Linux'' 0) sanitize_all_request fresh)))
      = check_calls (trace fresh)
        @ map (main_cmd (plain_world ''Linux'' 0)
                (swift_exec_of (canonicalize (plain_world ''Linux'' 0) sanitize_all_request)))
            ([canonicalize (plain_world ''Linux'' 0) sanitize_all_request,
              spec_derived_request (canonicalize (plain_world ''Linux'' 0) sanitize_all_request) ''address'' ''asan'',
              spec_derived_request (canonicalize (plain_world ''Linux'' 0) sanitize_all_request) ''thread'' ''tsan'']
             @ (if platform_system (plain_world ''Linux'' 0) = ''Linux'' then []
                else [spec_derived_request (canonicalize (plain_world ''Linux'' 0) sanitize_all_request) ''undefined'' ''ubsan'']))"
    by blast
  from l ok a(3) cwd have l3:
    "milestones (trace (snd (main (plain_world ''Linux'' 0) sanitize_all_request fresh)))
      = milestones (trace fresh)
        @ [Inr (main_cmd (plain_world ''Linux'' 0)
                  (swift_exec_of (canonicalize (plain_world ''Linux'' 0) sanitize_all_request))
                  (canonicalize (plain_world ''Linux'' 0) sanitize_all_request)),
           Inl (''=== '' @ action sanitize_all_request @ '' indexstore-db with asan ===''),
           Inr (main_cmd (plain_world ''Linux'' 0)
                  (swift_exec_of (canonicalize (plain_world ''Linux'' 0) sanitize_all_request))
                  (spec_derived_request (canonicalize (plain_world ''Linux'' 0) sanitize_all_request) ''address'' ''asan'')),
           Inl (''=== '' @ action sanitize_all_request @ '' indexstore-db with tsan ===''),
           Inr (main_cmd (plain_world ''Linux'' 0)
                  (swift_exec_of (canonicalize (plain_world ''Linux'' 0) sanitize_all_request))
                  (spec_derived_request (canonicalize (plain_world ''Linux'' 0) sanitize_all_request) ''thread'' ''tsan''))]
        @ (if platform_system (plain_world ''Linux'' 0) = ''Linux'' then []
           else [Inl (''=== '' @ action sanitize_all_request @ '' indexstore-db with ubsan ===''),
                 Inr (main_cmd (plain_world ''Linux'' 0)
                        (swift_exec_of (canonicalize (plain_world ''Linux'' 0) sanitize_all_request))
                        (spec_derived_request (canonicalize (plain_world ''Linux'' 0) sanitize_all_request) ''undefined'' ''ubsan''))])"
    by blast
  from d ok a(3) cwd have d3:
    "milestones (trace (snd (main (plain_world ''Darwin'' 0) sanitize_all_request fresh)))
      = milestones (trace fresh)
        @ [Inr (main_cmd (plain_world ''Darwin'' 0)
                  (swift_exec_of (canonicalize (plain_world ''Darwin'' 0) sanitize_all_request))
                  (canonicalize (plain_world ''Darwin'' 0) sanitize_all_request)),
           Inl (''=== '' @ action sanitize_all_request @ '' indexstore-db with asan ===''),
           Inr (main_cmd (plain_world ''Darwin'' 0)
                  (swift_exec_of (canonicalize (plain_world ''Darwin'' 0) sanitize_all_request))
                  (spec_derived_request (canonicalize (plain_world ''Darwin'' 0) sanitize_all_request) ''address'' ''asan'')),
           Inl (''=== '' @ action sanitize_all_request @ '' indexstore-db with tsan ===''),
           Inr (main_cmd (plain_world ''Darwin'' 0)
                  (swift_exec_of (canonicalize (plain_world ''Darwin'' 0) sanitize_all_request))
                  (spec_derived_request (canonicalize (plain_world ''Darwin'' 0) sanitize_all_request) ''thread'' ''tsan''))]
        @ (if platform_system (plain_world ''Darwin'' 0) = ''Linux'' then []
           else [Inl (''=== '' @ action sanitize_all_request @ '' indexstore-db with ubsan ===''),
                 Inr (main_cmd (plain_world ''Darwin'' 0)
                        (swift_exec_of (canonicalize (plain_world ''Darwin'' 0) sanitize_all_request))
                        (spec_derived_request (canonicalize (plain_world ''Darwin'' 0) sanitize_all_request) ''undefined'' ''ubsan''))])"
    by blast
  show ?thesis
    unfolding l2 l3 d3 canonical_sanitize_all_request ab
    using a ok l1 cwd
    by (simp add: pl fresh_def main_cmd_def get_swiftpm_options_def spec_derived_request_def
        swift_exec_of_def sanitize_all_request_def cli_defaults_def truthy_def items_def
        path_join_def join_step_def endswith_sep_def is_sanitize_flag_def)
qed

subsection \<open>Canonical paths\<close>



subsection \<open>Cleanup\<close>

lemma handle_invocation_never_remove_error:
  "fst (handle_invocation w x a s) \<noteq> Inl (RemoveError e p)"
proof -
  consider "action a = ''build''" | "action a = ''test''"
    | "action a \<noteq> ''build''" "action a \<noteq> ''test''" by blast
  then show ?thesis
  proof cases
    case 1
    then show ?thesis
      by (simp add: handle_invocation_build Let_def raised_def split: outcome.splits)
  next
    case 2
    then show ?thesis
      by (simp add: handle_invocation_test Let_def raised_def split: outcome.splits)
  next
    case 3
    then show ?thesis
      by (simp add: handle_invocation_other Let_def)
  qed
qed

lemma handle_invocation_first_cleanup:
  "\<exists>evs. trace (snd (handle_invocation w x a s))
      = trace s @ Print (''Cleaning '' @ build_path a)
          # Rmtree (build_path a)
              (remove_outcome w (trace s @ [Print (''Cleaning '' @ build_path a)]) (build_path a))
          # evs"
proof -
  consider "action a = ''build''" | "action a = ''test''"
    | "action a \<noteq> ''build''" "action a \<noteq> ''test''" by blast
  then show ?thesis
  proof cases
    case 1
    then show ?thesis by (simp add: handle_invocation_build Let_def)
  next
    case 2
    then show ?thesis by (simp add: handle_invocation_test Let_def split: outcome.splits)
  next
    case 3
    then show ?thesis by (simp add: handle_invocation_other Let_def)
  qed
qed

lemma test_invocation_second_cleanup:
  assumes ok: "\<forall>h c e. succeeded (run_outcome w h c e)"
    and t: "action a = ''test''"
  shows "\<exists>pre outp out2.
      trace (snd (handle_invocation w x a s)) =
        pre @ [Print (''Cleaning '' @ path_join (strip outp) [''isdb-tests'']),
               Rmtree (path_join (strip outp) [''isdb-tests''])
                 (remove_outcome w
                    (pre @ [Print (''Cleaning '' @ path_join (strip outp) [''isdb-tests''])])
                    (path_join (strip outp) [''isdb-tests''])),
               Print (str_join '' '' ([x, ''test''] @ get_swiftpm_options w a @ [''--parallel''])),
               CheckCall ([x, ''test''] @ get_swiftpm_options w a @ [''--parallel''])
                 (environ (prepare_env a s)) out2]
      \<and> succeeded out2"
proof -
  let ?env = "environ (prepare_env a s)"
  let ?discover = "[x, ''build'', ''--show-bin-path''] @ get_swiftpm_options w a"
  let ?t1 = "trace s @ [Print (''Cleaning '' @ build_path a)]"
  let ?t2 = "?t1 @ [Rmtree (build_path a) (remove_outcome w ?t1 (build_path a)),
                     Print (str_join '' '' ?discover)]"
  have "succeeded (run_outcome w ?t2 ?discover ?env)"
    using ok by blast
  then obtain outp where o: "run_outcome w ?t2 ?discover ?env = Exited 0 outp"
    by (cases "run_outcome w ?t2 ?discover ?env") (simp_all add: succeeded_def)
  let ?t3 = "?t2 @ [CheckOutput ?discover ?env (Exited 0 outp)]"
  show ?thesis
    apply (rule exI [of _ ?t3])
    apply (rule exI [of _ outp])
    using t o ok by (simp add: handle_invocation_test Let_def)
qed

text \<open>
  C9. \<^verbatim>\<open>handle_invocation\<close> run twice in a row where the build directory is absent: each
  time the cleanup of lines 67 and 68 meets "no such file or directory", which is recorded
  in the trace right after the line \<^verbatim>\<open>Cleaning <build path>\<close>, and neither run ends in a
  removal error; when the children succeed both runs return normally.
\<close>

theorem cleanup_of_absent_directory_twice:
  assumes "\<forall>h. remove_outcome w h (build_path a) = Some ENOENT"
  shows "(\<forall>e p. fst (handle_invocation w x a s) \<noteq> Inl (RemoveError e p))
    \<and> (\<forall>e p. fst (handle_invocation w x a (snd (handle_invocation w x a s)))
                \<noteq> Inl (RemoveError e p))
    \<and> (\<exists>evs. trace (snd (handle_invocation w x a s))
          = trace s @ Print (''Cleaning '' @ build_path a)
              # Rmtree (build_path a) (Some ENOENT) # evs)
    \<and> (\<exists>evs. trace (snd (handle_invocation w x a (snd (handle_invocation w x a s))))
          = trace (snd (handle_invocation w x a s)) @ Print (''Cleaning '' @ build_path a)
              # Rmtree (build_path a) (Some ENOENT) # evs)
    \<and> ((\<forall>h c e. succeeded (run_outcome w h c e))
         \<and> (action a = ''build'' \<or> action a = ''test'') \<longrightarrow>
         fst (handle_invocation w x a s) = Inr ()
         \<and> fst (handle_invocation w x a (snd (handle_invocation w x a s))) = Inr ())"
proof (intro conjI impI allI)
  fix e p
  show "fst (handle_invocation w x a s) \<noteq> Inl (RemoveError e p)"
    by (rule handle_invocation_never_remove_error)
  show "fst (handle_invocation w x a (snd (handle_invocation w x a s)))
                \<noteq> Inl (RemoveError e p)"
    by (rule handle_invocation_never_remove_error)
next
  show "\<exists>evs. trace (snd (handle_invocation w x a s))
          = trace s @ Print (''Cleaning '' @ build_path a)
              # Rmtree (build_path a) (Some ENOENT) # evs"
    using handle_invocation_first_cleanup [of w x a s] assms by simp
next
  show "\<exists>evs. trace (snd (handle_invocation w x a (snd (handle_invocation w x a s))))
          = trace (snd (handle_invocation w x a s)) @ Print (''Cleaning '' @ build_path a)
              # Rmtree (build_path a) (Some ENOENT) # evs"
    using handle_invocation_first_cleanup [of w x a "snd (handle_invocation w x a s)"] assms
    by simp
next
  assume h: "(\<forall>h c e. succeeded (run_outcome w h c e))
         \<and> (action a = ''build'' \<or> action a = ''test'')"
  show "fst (handle_invocation w x a s) = Inr ()"
    by (rule conjunct1 [OF handle_invocation_success [OF conjunct1 [OF h] conjunct2 [OF h]]])
  show "fst (handle_invocation w x a (snd (handle_invocation w x a s))) = Inr ()"
    by (rule conjunct1 [OF handle_invocation_success [OF conjunct1 [OF h] conjunct2 [OF h]]])
qed

theorem cleanup_of_absent_directory_twice_witness:
  "(\<forall>h. remove_outcome (plain_world ''Darwin'' 0) h (build_path build_request) = Some ENOENT)
   \<and> (\<forall>h c e. succeeded (run_outcome (plain_world ''Darwin'' 0) h c e))
   \<and> (action build_request = ''build'' \<or> action build_request = ''test'')
   \<and> fst (handle_invocation (plain_world ''Darwin'' 0) ''/tc/bin/swift'' build_request fresh) = Inr ()
   \<and> fst (handle_invocation (plain_world ''Darwin'' 0) ''/tc/bin/swift'' build_request
            (snd (handle_invocation (plain_world ''Darwin'' 0) ''/tc/bin/swift'' build_request fresh)))
       = Inr ()
   \<and> removals (trace (snd (handle_invocation (plain_world ''Darwin'' 0) ''/tc/bin/swift'' build_request
            (snd (handle_invocation (plain_world ''Darwin'' 0) ''/tc/bin/swift'' build_request fresh)))))
       = [(''/b'', Some ENOENT), (''/b'', Some ENOENT)]"
proof -
  have ab: "\<forall>h. remove_outcome (plain_world ''Darwin'' 0) h (build_path build_request) = Some ENOENT"
    by (simp add: plain_world_def)
  have ok: "\<forall>h c e. succeeded (run_outcome (plain_world ''Darwin'' 0) h c e)"
    by (simp add: plain_world_def succeeded_def)
  have b: "action build_request = ''build''"
    by (simp add: build_request_def cli_defaults_def)
  have bt: "action build_request = ''build'' \<or> action build_request = ''test''"
    using b by simp
  note inst = cleanup_of_absent_directory_twice [OF ab, of "''/tc/bin/swift''" fresh]
  have r: "fst (handle_invocation (plain_world ''Darwin'' 0) ''/tc/bin/swift'' build_request fresh) = Inr ()
      \<and> fst (handle_invocation (plain_world ''Darwin'' 0) ''/tc/bin/swift'' build_request
            (snd (handle_invocation (plain_world ''Darwin'' 0) ''/tc/bin/swift'' build_request fresh)))
       = Inr ()"
    using conjunct2 [OF conjunct2 [OF conjunct2 [OF conjunct2 [OF inst]]]] ok bt by simp
  have ro: "remove_outcome (plain_world ''Darwin'' 0) h p = Some ENOENT" for h p
    by (simp add: plain_world_def)
  have rm: "removals (trace (snd (handle_invocation (plain_world ''Darwin'' 0) ''/tc/bin/swift'' build_request
            (snd (handle_invocation (plain_world ''Darwin'' 0) ''/tc/bin/swift'' build_request fresh)))))
       = removals (trace fresh)
         @ [(build_path build_request, Some ENOENT), (build_path build_request, Some ENOENT)]"
    by (simp add: handle_invocation_build [OF b] Let_def ro)
  show ?thesis
    unfolding rm using ab ok bt r
    by (simp add: fresh_def build_request_def cli_defaults_def)
qed

text \<open>
  C5, as the specification states it, asks that a cleanup error other than "path does
  not exist" be raised. Where every removal is refused for lack of permission, the build
  invocation still returns normally: the refused removal is in the trace and the build
  tool is called after it.
\<close>

theorem cleanup_error_not_propagated:
  "remove_outcome denied_world (trace fresh @ [Print ''Cleaning /b'']) ''/b'' = Some EACCES
   \<and> fst (handle_invocation denied_world ''/tc/bin/swift'' build_request fresh) = Inr ()
   \<and> trace (snd (handle_invocation denied_world ''/tc/bin/swift'' build_request fresh)) ! 1
       = Rmtree ''/b'' (Some EACCES)
   \<and> check_calls (trace (snd (handle_invocation denied_world ''/tc/bin/swift'' build_request fresh)))
       = [main_cmd denied_world ''/tc/bin/swift'' build_request]"
  by (simp add: handle_invocation_build build_request_def cli_defaults_def denied_world_def
      fresh_def raised_def Let_def check_calls_def main_cmd_def)

text \<open>
  C5, amended. Both cleanups pass \<^verbatim>\<open>ignore_errors=True\<close>, so every error of a removal,
  "path does not exist" or any other, is ignored. \<^verbatim>\<open>handle_invocation\<close> never ends in a
  removal error; the removal of the build directory is attempted first and whatever it met
  is only recorded; when the children succeed the invocation returns normally and its main
  command has run, whatever the removals met; and for the action \<^verbatim>\<open>test\<close> the removal of
  \<^verbatim>\<open>isdb-tests\<close>, with whatever it met, is directly followed by the \<^verbatim>\<open>test\<close> command.
\<close>

theorem cleanup_ignores_every_error:
  "(\<forall>e p. fst (handle_invocation w x a s) \<noteq> Inl (RemoveError e p))
   \<and> (\<exists>evs. trace (snd (handle_invocation w x a s))
        = trace s @ Print (''Cleaning '' @ build_path a)
            # Rmtree (build_path a)
                (remove_outcome w (trace s @ [Print (''Cleaning '' @ build_path a)]) (build_path a))
            # evs)
   \<and> ((\<forall>h c e. succeeded (run_outcome w h c e))
        \<and> (action a = ''build'' \<or> action a = ''test'') \<longrightarrow>
        fst (handle_invocation w x a s) = Inr ()
        \<and> check_calls (trace (snd (handle_invocation w x a s)))
            = check_calls (trace s) @ [main_cmd w x a])
   \<and> ((\<forall>h c e. succeeded (run_outcome w h c e)) \<and> action a = ''test'' \<longrightarrow>
        (\<exists>pre outp out2.
           trace (snd (handle_invocation w x a s)) =
             pre @ [Print (''Cleaning '' @ path_join (strip outp) [''isdb-tests'']),
                    Rmtree (path_join (strip outp) [''isdb-tests''])
                      (remove_outcome w
                         (pre @ [Print (''Cleaning '' @ path_join (strip outp) [''isdb-tests''])])
                         (path_join (strip outp) [''isdb-tests''])),
                    Print (str_join '' '' ([x, ''test''] @ get_swiftpm_options w a @ [''--parallel''])),
                    CheckCall ([x, ''test''] @ get_swiftpm_options w a @ [''--parallel''])
                      (environ (prepare_env a s)) out2]
           \<and> succeeded out2))"
proof (intro conjI impI allI)
  fix e p
  show "fst (handle_invocation w x a s) \<noteq> Inl (RemoveError e p)"
    by (rule handle_invocation_never_remove_error)
next
  show "\<exists>evs. trace (snd (handle_invocation w x a s))
        = trace s @ Print (''Cleaning '' @ build_path a)
            # Rmtree (build_path a)
                (remove_outcome w (trace s @ [Print (''Cleaning '' @ build_path a)]) (build_path a))
            # evs"
    by (rule handle_invocation_first_cleanup)
next
  assume h: "(\<forall>h c e. succeeded (run_outcome w h c e))
        \<and> (action a = ''build'' \<or> action a = ''test'')"
  show "fst (handle_invocation w x a s) = Inr ()"
    by (rule conjunct1 [OF handle_invocation_success [OF conjunct1 [OF h] conjunct2 [OF h]]])
next
  assume h: "(\<forall>h c e. succeeded (run_outcome w h c e))
        \<and> (action a = ''build'' \<or> action a = ''test'')"
  show "check_calls (trace (snd (handle_invocation w x a s)))
            = check_calls (trace s) @ [main_cmd w x a]"
    by (rule conjunct2 [OF handle_invocation_success [OF conjunct1 [OF h] conjunct2 [OF h]]])
next
  assume h: "(\<forall>h c e. succeeded (run_outcome w h c e)) \<and> action a = ''test''"
  show "\<exists>pre outp out2.
           trace (snd (handle_invocation w x a s)) =
             pre @ [Print (''Cleaning '' @ path_join (strip outp) [''isdb-tests'']),
                    Rmtree (path_join (strip outp) [''isdb-tests''])
                      (remove_outcome w
                         (pre @ [Print (''Cleaning '' @ path_join (strip outp) [''isdb-tests''])])
                         (path_join (strip outp) [''isdb-tests''])),
                    Print (str_join '' '' ([x, ''test''] @ get_swiftpm_options w a @ [''--parallel''])),
                    CheckCall ([x, ''test''] @ get_swiftpm_options w a @ [''--parallel''])
                      (environ (prepare_env a s)) out2]
           \<and> succeeded out2"
    by (rule test_invocation_second_cleanup [OF conjunct1 [OF h] conjunct2 [OF h]])
qed

theorem cleanup_ignores_every_error_witness:
  "(\<forall>h c e. succeeded (run_outcome denied_world h c e))
   \<and> action test_request = ''test''
   \<and> fst (handle_invocation denied_world ''/tc/bin/swift'' test_request fresh) = Inr ()
   \<and> removals (trace (snd (handle_invocation denied_world ''/tc/bin/swift'' test_request fresh)))
       = [(''/b'', Some EACCES), (''isdb-tests'', Some EACCES)]
   \<and> check_calls (trace (snd (handle_invocation denied_world ''/tc/bin/swift'' test_request fresh)))
       = [[''/tc/bin/swift'', ''test'', ''--package-path'', ''/p'', ''--build-path'', ''/b'',
           ''--configuration'', ''debug'',
           ''-Xcxx'', ''-I'', ''-Xcxx'', ''/tc/lib/swift'',
           ''-Xcxx'', ''-I'', ''-Xcxx'', ''/tc/lib/swift/Block'', ''--parallel'']]"
proof -
  have ok: "\<forall>h c e. succeeded (run_outcome denied_world h c e)"
    by (simp add: denied_world_def succeeded_def)
  have t: "action test_request = ''test''"
    by (simp add: test_request_def cli_defaults_def)
  have bt: "action test_request = ''build'' \<or> action test_request = ''test''"
    using t by simp
  note inst = cleanup_ignores_every_error [of denied_world "''/tc/bin/swift''" test_request fresh]
  have r: "fst (handle_invocation denied_world ''/tc/bin/swift'' test_request fresh) = Inr ()"
    using conjunct1 [OF conjunct2 [OF conjunct2 [OF inst]]] ok bt by simp
  have c: "check_calls (trace (snd (handle_invocation denied_world ''/tc/bin/swift'' test_request fresh)))
            = check_calls (trace fresh) @ [main_cmd denied_world ''/tc/bin/swift'' test_request]"
    using conjunct1 [OF conjunct2 [OF conjunct2 [OF inst]]] ok bt by simp
  have o: "run_outcome denied_world h c e = Exited 0 []" for h c e
    by (simp add: denied_world_def)
  have ro: "remove_outcome denied_world h p = Some EACCES" for h p
    by (simp add: denied_world_def)
  have rm: "removals (trace (snd (handle_invocation denied_world ''/tc/bin/swift'' test_request fresh)))
       = removals (trace fresh)
         @ [(build_path test_request, Some EACCES), (path_join (strip []) [''isdb-tests''], Some EACCES)]"
    by (simp add: handle_invocation_test [OF t] Let_def o ro)
  show ?thesis
    unfolding c rm using ok t r
    by (simp add: fresh_def main_cmd_def get_swiftpm_options_def denied_world_def
        test_request_def cli_defaults_def truthy_def items_def strip_def
        path_join_def join_step_def endswith_sep_def)
qed

subsection \<open>Failure of a build-tool invocation\<close>

lemma run_shape_prepend:
  assumes "run_shape k r evs" "\<forall>ev\<in>set pre. \<not> spawn_failed ev"
  shows "run_shape k r (pre @ evs)"
  using assms by (auto simp add: run_shape_def butlast_append)

lemma ok_raised_iff: "Inr () = raised out cmd \<longleftrightarrow> succeeded out"
  by (cases out) (simp_all add: succeeded_def raised_def)

lemma run_shape_clean:
  assumes "run_shape k (Inr ()) evs"
  shows "\<forall>ev\<in>set evs. \<not> spawn_failed ev"
proof -
  from assms have ne: "evs \<noteq> []" and bl: "\<forall>ev\<in>set (butlast evs). \<not> spawn_failed ev"
    by (simp_all add: run_shape_def)
  from assms have "\<not> spawn_failed (last evs)"
    by (cases "last evs") (simp_all add: run_shape_def ok_raised_iff)
  moreover from ne have "set evs = insert (last evs) (set (butlast evs))"
    by (metis append_butlast_last_id list.simps(15) rotate1.simps(2) set_rotate1)
  ultimately show ?thesis using bl by simp
qed

lemma handle_invocation_shape:
  "\<exists>evs. trace (snd (handle_invocation w x a s)) = trace s @ evs
     \<and> run_shape (action a = ''build'' \<or> action a = ''test'')
          (fst (handle_invocation w x a s)) evs"
proof -
  consider "action a = ''build''" | "action a = ''test''"
    | "action a \<noteq> ''build''" "action a \<noteq> ''test''" by blast
  then show ?thesis
  proof cases
    case 1
    then show ?thesis by (simp add: handle_invocation_build Let_def run_shape_def)
  next
    case 2
    let ?env = "environ (prepare_env a s)"
    let ?discover = "[x, ''build'', ''--show-bin-path''] @ get_swiftpm_options w a"
    let ?t1 = "trace s @ [Print (''Cleaning '' @ build_path a)]"
    let ?t2 = "?t1 @ [Rmtree (build_path a) (remove_outcome w ?t1 (build_path a)),
                     Print (str_join '' '' ?discover)]"
    show ?thesis
    proof (cases "run_outcome w ?t2 ?discover ?env")
      case (CannotExec err)
      then show ?thesis using 2
        by (simp add: handle_invocation_test Let_def run_shape_def succeeded_def raised_def)
    next
      case (Exited rc outp)
      show ?thesis
      proof (cases "rc = 0")
        case True
        with Exited show ?thesis using 2
          by (simp add: handle_invocation_test Let_def run_shape_def succeeded_def)
      next
        case False
        with Exited show ?thesis using 2
          by (simp add: handle_invocation_test Let_def run_shape_def succeeded_def raised_def)
      qed
    qed
  next
    case 3
    then show ?thesis by (simp add: handle_invocation_other Let_def run_shape_def)
  qed
qed

lemma spec_run_plan_shape:
  assumes "plan \<noteq> []"
    and "\<forall>(b, req)\<in>set plan. (action req = ''build'' \<or> action req = ''test'') = k"
  shows "\<exists>evs. trace (snd (spec_run_plan w x plan s)) = trace s @ evs
           \<and> run_shape k (fst (spec_run_plan w x plan s)) evs"
  using assms
proof (induction plan arbitrary: s)
  case Nil
  then show ?case by simp
next
  case (Cons br plan)
  obtain b req where br: "br = (b, req)" by (cases br)
  define s0 where "s0 = (case b of None \<Rightarrow> s | Some line \<Rightarrow> print line s)"
  obtain e0 where e0: "trace s0 = trace s @ e0" "\<forall>ev\<in>set e0. \<not> spawn_failed ev"
    by (cases b) (simp_all add: s0_def print_def)
  obtain r1 s1 where h: "handle_invocation w x req s0 = (r1, s1)"
    by (cases "handle_invocation w x req s0")
  from Cons.prems(2) br have k: "(action req = ''build'' \<or> action req = ''test'') = k"
    by simp
  obtain e1 where e1: "trace s1 = trace s0 @ e1" "run_shape k r1 e1"
    using handle_invocation_shape [of w x req s0] h k by auto
  show ?case
  proof (cases r1)
    case (Inl e)
    have "run_shape k r1 (e0 @ e1)"
      by (rule run_shape_prepend [OF e1(2) e0(2)])
    then show ?thesis
      using h Inl e0 e1 by (simp add: br s0_def [symmetric])
  next
    case (Inr u)
    then have r1: "r1 = Inr ()" by simp
    have c1: "\<forall>ev\<in>set e1. \<not> spawn_failed ev"
      using run_shape_clean e1(2) r1 by blast
    show ?thesis
    proof (cases "plan = []")
      case True
      have "run_shape k r1 (e0 @ e1)"
        by (rule run_shape_prepend [OF e1(2) e0(2)])
      then show ?thesis
        using h r1 e0 e1 True by (simp add: br s0_def [symmetric])
    next
      case False
      from Cons.prems(2) have "\<forall>(b, req)\<in>set plan. (action req = ''build'' \<or> action req = ''test'') = k"
        by simp
      from Cons.IH [OF False this, of s1]
      obtain e2 where e2: "trace (snd (spec_run_plan w x plan s1)) = trace s1 @ e2"
        "run_shape k (fst (spec_run_plan w x plan s1)) e2"
        by auto
      have "run_shape k (fst (spec_run_plan w x plan s1)) ((e0 @ e1) @ e2)"
        by (rule run_shape_prepend [OF e2(2)]) (use e0(2) c1 in auto)
      then show ?thesis
        using h r1 e0 e1 e2 by (simp add: br s0_def [symmetric])
    qed
  qed
qed

lemma not_succeeded_raised: "\<not> succeeded out \<Longrightarrow> \<exists>e. raised out cmd = Inl e"
  by (cases out) (simp_all add: succeeded_def raised_def)

lemma run_shape_consequences:
  assumes "run_shape k r evs"
  shows "(\<forall>ev\<in>set (butlast evs). \<not> spawn_failed ev)
     \<and> (\<forall>cmd e rc outp. rc \<noteq> 0 \<and> evs \<noteq> []
           \<and> (last evs = CheckCall cmd e (Exited rc outp)
               \<or> last evs = CheckOutput cmd e (Exited rc outp))
          \<longrightarrow> r = Inl (CalledProcessError rc cmd))
     \<and> ((\<exists>ev\<in>set evs. spawn_failed ev) \<longrightarrow> exit_status r = 1)
     \<and> ((\<forall>ev\<in>set evs. \<not> spawn_failed ev) \<and> k \<longrightarrow> r = Inr () \<and> exit_status r = 0)"
proof (intro conjI allI impI)
  from assms show bl: "\<forall>ev\<in>set (butlast evs). \<not> spawn_failed ev"
    by (simp add: run_shape_def)
  from assms have ne: "evs \<noteq> []" by (simp add: run_shape_def)
  then have set_evs: "set evs = insert (last evs) (set (butlast evs))"
    by (metis append_butlast_last_id list.simps(15) rotate1.simps(2) set_rotate1)
  {
    fix cmd e rc outp
    assume "rc \<noteq> 0 \<and> evs \<noteq> []
           \<and> (last evs = CheckCall cmd e (Exited rc outp)
               \<or> last evs = CheckOutput cmd e (Exited rc outp))"
    then show "r = Inl (CalledProcessError rc cmd)"
      using assms by (auto simp add: run_shape_def raised_def)
  }
  {
    assume "\<exists>ev\<in>set evs. spawn_failed ev"
    then have f: "spawn_failed (last evs)"
      using bl set_evs by auto
    then have "\<exists>e. r = Inl e"
      using assms not_succeeded_raised
      by (cases "last evs") (auto simp add: run_shape_def)
    then show "exit_status r = 1"
      by (auto simp add: exit_status_def)
  }
  {
    assume a: "(\<forall>ev\<in>set evs. \<not> spawn_failed ev) \<and> k"
    then have "\<not> spawn_failed (last evs)"
      using set_evs by auto
    then show "r = Inr ()"
      using assms a by (cases "last evs") (auto simp add: run_shape_def succeeded_raised)
    then show "exit_status r = 0"
      by (simp add: exit_status_def)
  }
qed

lemma main_shape:
  assumes "\<not> (truthy (sanitize parsed) \<and> sanitize_all parsed)"
  shows "\<exists>evs. trace (snd (main w parsed s)) = trace s @ evs
           \<and> run_shape (action parsed = ''build'' \<or> action parsed = ''test'')
                (fst (main w parsed s)) evs"
proof -
  have "\<forall>(b, req)\<in>set (spec_plan w (canonicalize w parsed)).
          (action req = ''build'' \<or> action req = ''test'')
            = (action parsed = ''build'' \<or> action parsed = ''test'')"
    by (auto simp add: spec_plan_def spec_derived_request_def split: if_splits)
  moreover have "spec_plan w (canonicalize w parsed) \<noteq> []"
    by (simp add: spec_plan_def)
  ultimately show ?thesis
    using spec_run_plan_shape [of "spec_plan w (canonicalize w parsed)"
        "action parsed = ''build'' \<or> action parsed = ''test''" w
        "swift_exec_of (canonicalize w parsed)" s]
    by (simp add: main_from_base [OF assms])
qed

lemma failing_base_run:
  "main (plain_world ''Darwin'' 2) sanitize_all_request fresh =
     (Inl (CalledProcessError 2
             [''/tc/bin/swift'', ''build'', ''--package-path'', ''/work/isdb'',
              ''--build-path'', ''/work/isdb/.build'', ''--configuration'', ''debug'']),
      \<lparr>environ = [(''PATH'', ''/usr/bin''), (''INDEXSTOREDB_TOOLCHAIN_BIN_PATH'', ''/tc'')],
       trace =
         [Print ''Cleaning /work/isdb/.build'',
          Rmtree ''/work/isdb/.build'' (Some ENOENT),
          Print ''/tc/bin/swift build --package-path /work/isdb --build-path /work/isdb/.build --configuration debug'',
          CheckCall
            [''/tc/bin/swift'', ''build'', ''--package-path'', ''/work/isdb'',
             ''--build-path'', ''/work/isdb/.build'', ''--configuration'', ''debug'']
            [(''PATH'', ''/usr/bin''), (''INDEXSTOREDB_TOOLCHAIN_BIN_PATH'', ''/tc'')]
            (Exited 2 (''/work/isdb/.build/debug'' @ [CHR 0x0A]))]\<rparr>)"
proof -
  have nc: "\<not> (truthy (sanitize sanitize_all_request) \<and> sanitize_all sanitize_all_request)"
    by (simp add: sanitize_all_request_def cli_defaults_def truthy_def)
  have a: "action (sanitize_all_request\<lparr>package_path := ''/work/isdb'',
              build_path := ''/work/isdb/.build''\<rparr>) = ''build''"
    by (simp add: sanitize_all_request_def cli_defaults_def)
  show ?thesis
    unfolding main_from_base [OF nc] canonical_sanitize_all_request
    by (simp add: spec_plan_def handle_invocation_build [OF a] Let_def)
       (simp add: sanitize_all_request_def cli_defaults_def plain_world_def fresh_def
          swift_exec_of_def get_swiftpm_options_def prepare_env_def environ_set_def
          raised_def truthy_def items_def path_join_def join_step_def endswith_sep_def Let_def)
qed

text \<open>
  C2, as the specification states it, asks that the exit status of the script be the
  return code of the first failing build-tool invocation. Where the build tool exits with
  status 2, \<^verbatim>\<open>check_call\<close> raises \<^verbatim>\<open>CalledProcessError\<close> with return code 2, nothing
  catches it, and the script ends with status 1.
\<close>

theorem exit_status_is_not_the_tool_status:
  "fst (main (plain_world ''Darwin'' 2) sanitize_all_request fresh)
     = Inl (CalledProcessError 2
             [''/tc/bin/swift'', ''build'', ''--package-path'', ''/work/isdb'',
              ''--build-path'', ''/work/isdb/.build'', ''--configuration'', ''debug''])
   \<and> last (trace (snd (main (plain_world ''Darwin'' 2) sanitize_all_request fresh)))
       = CheckCall
            [''/tc/bin/swift'', ''build'', ''--package-path'', ''/work/isdb'',
             ''--build-path'', ''/work/isdb/.build'', ''--configuration'', ''debug'']
            [(''PATH'', ''/usr/bin''), (''INDEXSTOREDB_TOOLCHAIN_BIN_PATH'', ''/tc'')]
            (Exited 2 (''/work/isdb/.build/debug'' @ [CHR 0x0A]))
   \<and> exit_status (fst (main (plain_world ''Darwin'' 2) sanitize_all_request fresh)) \<noteq> 2"
  by (simp add: failing_base_run exit_status_def)

text \<open>
  C2, amended. The events of a run of \<^verbatim>\<open>main\<close> extend the trace so that no child fails
  before the last event: a failing invocation is the last thing the script does (no later
  sanitizer pass, no retry). When the last child exits with a non-zero return code the
  result is the \<^verbatim>\<open>CalledProcessError\<close> carrying that return code and command line; when
  any child fails the exit status of the script is 1; and when every child succeeds (for
  the actions \<^verbatim>\<open>build\<close> and \<^verbatim>\<open>test\<close>, without conflicting options) the script ends
  normally with status 0.
\<close>

theorem first_failure_ends_the_run:
  "\<exists>evs. trace (snd (main w parsed s)) = trace s @ evs
     \<and> (\<forall>ev\<in>set (butlast evs). \<not> spawn_failed ev)
     \<and> (\<forall>cmd e rc outp. rc \<noteq> 0 \<and> evs \<noteq> []
           \<and> (last evs = CheckCall cmd e (Exited rc outp)
               \<or> last evs = CheckOutput cmd e (Exited rc outp))
          \<longrightarrow> fst (main w parsed s) = Inl (CalledProcessError rc cmd))
     \<and> ((\<exists>ev\<in>set evs. spawn_failed ev) \<longrightarrow> exit_status (fst (main w parsed s)) = 1)
     \<and> ((\<forall>ev\<in>set evs. \<not> spawn_failed ev)
          \<and> ((action parsed = ''build'' \<or> action parsed = ''test'')
               \<and> \<not> (truthy (sanitize parsed) \<and> sanitize_all parsed))
         \<longrightarrow> fst (main w parsed s) = Inr () \<and> exit_status (fst (main w parsed s)) = 0)"
proof (cases "truthy (sanitize parsed) \<and> sanitize_all parsed")
  case True
  then have "main w parsed s =
     (Inl (AssertionError ''cannot combine --sanitize with --sanitize-all''), s)"
    by (simp add: main_def)
  then show ?thesis using True by simp
next
  case False
  from main_shape [OF False, of w s] obtain evs where
    t: "trace (snd (main w parsed s)) = trace s @ evs"
    and sh: "run_shape (action parsed = ''build'' \<or> action parsed = ''test'')
                (fst (main w parsed s)) evs"
    by blast
  from run_shape_consequences [OF sh] t False show ?thesis
    by (intro exI [of _ evs]) blast
qed

theorem first_failure_ends_the_run_witness:
  "(2::int) \<noteq> 0
   \<and> (action sanitize_all_request = ''build'' \<or> action sanitize_all_request = ''test'')
   \<and> \<not> (truthy (sanitize sanitize_all_request) \<and> sanitize_all sanitize_all_request)
   \<and> check_calls (trace (snd (main (plain_world ''Darwin'' 2) sanitize_all_request fresh)))
       = [[''/tc/bin/swift'', ''build'', ''--package-path'', ''/work/isdb'',
           ''--build-path'', ''/work/isdb/.build'', ''--configuration'', ''debug'']]
   \<and> spawn_failed (last (trace (snd (main (plain_world ''Darwin'' 2) sanitize_all_request fresh))))
   \<and> fst (main (plain_world ''Darwin'' 2) sanitize_all_request fresh)
       = Inl (CalledProcessError 2
             [''/tc/bin/swift'', ''build'', ''--package-path'', ''/work/isdb'',
              ''--build-path'', ''/work/isdb/.build'', ''--configuration'', ''debug''])
   \<and> exit_status (fst (main (plain_world ''Darwin'' 2) sanitize_all_request fresh)) = 1
   \<and> list_all (\<lambda>ev. \<not> spawn_failed ev)
         (trace (snd (main (plain_world ''Darwin'' 0) sanitize_all_request fresh)))
   \<and> exit_status (fst (main (plain_world ''Darwin'' 0) sanitize_all_request fresh)) = 0"
proof -
  have nc: "\<not> (truthy (sanitize sanitize_all_request) \<and> sanitize_all sanitize_all_request)"
    and act: "action sanitize_all_request = ''build'' \<or> action sanitize_all_request = ''test''"
    by (simp_all add: sanitize_all_request_def cli_defaults_def truthy_def)
  have ok: "\<forall>h c e. succeeded (run_outcome (plain_world ''Darwin'' 0) h c e)"
    by (simp add: plain_world_def succeeded_def)
  have acts: "\<forall>(b, req)\<in>set (spec_plan (plain_world ''Darwin'' 0)
                 (canonicalize (plain_world ''Darwin'' 0) sanitize_all_request)).
                action req = ''build'' \<or> action req = ''test''"
    using act by (auto simp add: spec_plan_def spec_derived_request_def split: if_splits)
  have r0: "fst (main (plain_world ''Darwin'' 0) sanitize_all_request fresh) = Inr ()"
    using spec_run_plan_success [OF ok acts] by (simp add: main_from_base [OF nc])
  from first_failure_ends_the_run [of "plain_world ''Darwin'' 0" sanitize_all_request fresh]
  obtain evs where t: "trace (snd (main (plain_world ''Darwin'' 0) sanitize_all_request fresh))
        = trace fresh @ evs"
    and e: "(\<exists>ev\<in>set evs. spawn_failed ev) \<longrightarrow>
        exit_status (fst (main (plain_world ''Darwin'' 0) sanitize_all_request fresh)) = 1"
    by blast
  have "exit_status (fst (main (plain_world ''Darwin'' 0) sanitize_all_request fresh)) = 0"
    by (simp add: r0 exit_status_def)
  with e t have clean:
    "list_all (\<lambda>ev. \<not> spawn_failed ev)
       (trace (snd (main (plain_world ''Darwin'' 0) sanitize_all_request fresh)))"
    by (auto simp add: fresh_def list_all_iff)
  show ?thesis
    using nc act clean r0
    by (simp add: failing_base_run exit_status_def succeeded_def)
qed

subsection \<open>The environment across invocations\<close>

text \<open>
  C3 asks that nothing set for one invocation be visible to a later one, and that no
  process-wide store be changed. On Darwin with \<^verbatim>\<open>--sanitize-all\<close>, starting from an
  environment that holds only \<^verbatim>\<open>PATH\<close>, the four children receive growing environments:
  the thread pass still carries \<^verbatim>\<open>ASAN_OPTIONS\<close>, the undefined pass carries both
  \<^verbatim>\<open>ASAN_OPTIONS\<close> and \<^verbatim>\<open>INDEXSTOREDB_ENABLED_THREAD_SANITIZER\<close>, and \<^verbatim>\<open>os.environ\<close> itself
  ends up holding all of them.
\<close>

theorem sanitizer_variables_leak_into_later_passes:
  "environ fresh = [(''PATH'', ''/usr/bin'')]
   \<and> child_envs (trace (snd (main (plain_world ''Darwin'' 0) sanitize_all_request fresh))) =
     [[(''PATH'', ''/usr/bin''), (''INDEXSTOREDB_TOOLCHAIN_BIN_PATH'', ''/tc'')],
      [(''PATH'', ''/usr/bin''), (''INDEXSTOREDB_TOOLCHAIN_BIN_PATH'', ''/tc''),
       (''ASAN_OPTIONS'', ''detect_leaks=false'')],
      [(''PATH'', ''/usr/bin''), (''INDEXSTOREDB_TOOLCHAIN_BIN_PATH'', ''/tc''),
       (''ASAN_OPTIONS'', ''detect_leaks=false''),
       (''INDEXSTOREDB_ENABLED_THREAD_SANITIZER'', ''1'')],
      [(''PATH'', ''/usr/bin''), (''INDEXSTOREDB_TOOLCHAIN_BIN_PATH'', ''/tc''),
       (''ASAN_OPTIONS'', ''detect_leaks=false''),
       (''INDEXSTOREDB_ENABLED_THREAD_SANITIZER'', ''1''),
       (''UBSAN_OPTIONS'',
        ''halt_on_error=true,suppressions=/work/isdb/Utilities/ubsan_supressions.supp'')]]
   \<and> environ (snd (main (plain_world ''Darwin'' 0) sanitize_all_request fresh)) =
      [(''PATH'', ''/usr/bin''), (''INDEXSTOREDB_TOOLCHAIN_BIN_PATH'', ''/tc''),
       (''ASAN_OPTIONS'', ''detect_leaks=false''),
       (''INDEXSTOREDB_ENABLED_THREAD_SANITIZER'', ''1''),
       (''UBSAN_OPTIONS'',
        ''halt_on_error=true,suppressions=/work/isdb/Utilities/ubsan_supressions.supp'')]"
proof -
  have nc: "\<not> (truthy (sanitize sanitize_all_request) \<and> sanitize_all sanitize_all_request)"
    by (simp add: sanitize_all_request_def cli_defaults_def truthy_def)
  have hb: "handle_invocation (plain_world ''Darwin'' 0) x a s =
     (Inr (),
      \<lparr>environ = environ (prepare_env a s),
       trace = trace s @
         [Print (''Cleaning '' @ build_path a), Rmtree (build_path a) (Some ENOENT),
          Print (str_join '' '' ([x, ''build''] @ get_swiftpm_options (plain_world ''Darwin'' 0) a)),
          CheckCall ([x, ''build''] @ get_swiftpm_options (plain_world ''Darwin'' 0) a)
            (environ (prepare_env a s)) (Exited 0 (''/work/isdb/.build/debug'' @ [CHR 0x0A]))]\<rparr>)"
    if "action a = ''build''" for x a s
    using that by (simp add: handle_invocation_build Let_def plain_world_def raised_def)
  have acts: "action (sanitize_all_request\<lparr>package_path := p, build_path := b\<rparr>) = ''build''"
    "action (spec_derived_request (sanitize_all_request\<lparr>package_path := p, build_path := b\<rparr>) san short)
       = ''build''" for p b san short
    by (simp_all add: sanitize_all_request_def cli_defaults_def spec_derived_request_def)
  have envs: "environ (prepare_env (sanitize_all_request\<lparr>package_path := p, build_path := b\<rparr>) s)
      = AList.update ''INDEXSTOREDB_TOOLCHAIN_BIN_PATH'' ''/tc'' (environ s)"
    "environ (prepare_env (spec_derived_request
        (sanitize_all_request\<lparr>package_path := p, build_path := b\<rparr>) ''address'' short) s)
      = AList.update ''ASAN_OPTIONS'' ''detect_leaks=false''
          (AList.update ''INDEXSTOREDB_TOOLCHAIN_BIN_PATH'' ''/tc'' (environ s))"
    "environ (prepare_env (spec_derived_request
        (sanitize_all_request\<lparr>package_path := p, build_path := b\<rparr>) ''thread'' short) s)
      = AList.update ''INDEXSTOREDB_ENABLED_THREAD_SANITIZER'' ''1''
          (AList.update ''INDEXSTOREDB_TOOLCHAIN_BIN_PATH'' ''/tc'' (environ s))"
    "environ (prepare_env (spec_derived_request
        (sanitize_all_request\<lparr>package_path := p, build_path := b\<rparr>) ''undefined'' short) s)
      = AList.update ''UBSAN_OPTIONS''
          (''halt_on_error=true,suppressions='' @ path_join p [''Utilities'', ''ubsan_supressions.supp''])
          (AList.update ''INDEXSTOREDB_TOOLCHAIN_BIN_PATH'' ''/tc'' (environ s))"
    for p b short s
    by (simp_all add: prepare_env_def environ_set_def spec_derived_request_def
        sanitize_all_request_def cli_defaults_def truthy_def items_def Let_def)
  have sa: "sanitize_all sanitize_all_request"
    by (simp add: sanitize_all_request_def)
  have pl: "platform_system (plain_world ''Darwin'' 0) \<noteq> ''Linux''"
    by (simp add: plain_world_def)
  show ?thesis
    unfolding main_from_base [OF nc] canonical_sanitize_all_request
    by (simp add: spec_plan_def pl sa hb acts envs print_def fresh_def
        path_join_def join_step_def endswith_sep_def)
qed

text \<open>
  C4 asks that the child of a single-sanitizer invocation receive the variable of that
  sanitizer and none belonging to another. In the same run (Darwin, \<^verbatim>\<open>--sanitize-all\<close>,
  an environment that starts without any sanitizer variable) the child of the thread pass,
  whose command carries the one entry \<^verbatim>\<open>--sanitize=thread\<close>, receives \<^verbatim>\<open>ASAN_OPTIONS\<close> of
  the address pass, and the child of the undefined pass, with the one entry
  \<^verbatim>\<open>--sanitize=undefined\<close>, receives both \<^verbatim>\<open>ASAN_OPTIONS\<close> and
  \<^verbatim>\<open>INDEXSTOREDB_ENABLED_THREAD_SANITIZER\<close>.
\<close>

theorem thread_pass_child_receives_address_variable:
  "trace (snd (main (plain_world ''Darwin'' 0) sanitize_all_request fresh)) ! 13
     = CheckCall
         [''/tc/bin/swift'', ''build'', ''--package-path'', ''/work/isdb'',
          ''--build-path'', ''/work/isdb/.build/test-tsan'', ''--configuration'', ''debug'',
          ''--sanitize=thread'']
         [(''PATH'', ''/usr/bin''), (''INDEXSTOREDB_TOOLCHAIN_BIN_PATH'', ''/tc''),
          (''ASAN_OPTIONS'', ''detect_leaks=false''),
          (''INDEXSTOREDB_ENABLED_THREAD_SANITIZER'', ''1'')]
         (Exited 0 (''/work/isdb/.build/debug'' @ [CHR 0x0A]))
   \<and> map_of (environ fresh) ''ASAN_OPTIONS'' = None
   \<and> trace (snd (main (plain_world ''Darwin'' 0) sanitize_all_request fresh)) ! 18
     = CheckCall
         [''/tc/bin/swift'', ''build'', ''--package-path'', ''/work/isdb'',
          ''--build-path'', ''/work/isdb/.build/test-ubsan'', ''--configuration'', ''debug'',
          ''--sanitize=undefined'']
         [(''PATH'', ''/usr/bin''), (''INDEXSTOREDB_TOOLCHAIN_BIN_PATH'', ''/tc''),
          (''ASAN_OPTIONS'', ''detect_leaks=false''),
          (''INDEXSTOREDB_ENABLED_THREAD_SANITIZER'', ''1''),
          (''UBSAN_OPTIONS'',
           ''halt_on_error=true,suppressions=/work/isdb/Utilities/ubsan_supressions.supp'')]
         (Exited 0 (''/work/isdb/.build/debug'' @ [CHR 0x0A]))"
proof -
  have nc: "\<not> (truthy (sanitize sanitize_all_request) \<and> sanitize_all sanitize_all_request)"
    by (simp add: sanitize_all_request_def cli_defaults_def truthy_def)
  have hb: "handle_invocation (plain_world ''Darwin'' 0) x a s =
     (Inr (),
      \<lparr>environ = environ (prepare_env a s),
       trace = trace s @
         [Print (''Cleaning '' @ build_path a), Rmtree (build_path a) (Some ENOENT),
          Print (str_join '' '' ([x, ''build''] @ get_swiftpm_options (plain_world ''Darwin'' 0) a)),
          CheckCall ([x, ''build''] @ get_swiftpm_options (plain_world ''Darwin'' 0) a)
            (environ (prepare_env a s)) (Exited 0 (''/work/isdb/.build/debug'' @ [CHR 0x0A]))]\<rparr>)"
    if "action a = ''build''" for x a s
    using that by (simp add: handle_invocation_build Let_def plain_world_def raised_def)
  have acts: "action (sanitize_all_request\<lparr>package_path := p, build_path := b\<rparr>) = ''build''"
    "action (spec_derived_request (sanitize_all_request\<lparr>package_path := p, build_path := b\<rparr>) san short)
       = ''build''" for p b san short
    by (simp_all add: sanitize_all_request_def cli_defaults_def spec_derived_request_def)
  have envs: "environ (prepare_env (sanitize_all_request\<lparr>package_path := p, build_path := b\<rparr>) s)
      = AList.update ''INDEXSTOREDB_TOOLCHAIN_BIN_PATH'' ''/tc'' (environ s)"
    "environ (prepare_env (spec_derived_request
        (sanitize_all_request\<lparr>package_path := p, build_path := b\<rparr>) ''address'' short) s)
      = AList.update ''ASAN_OPTIONS'' ''detect_leaks=false''
          (AList.update ''INDEXSTOREDB_TOOLCHAIN_BIN_PATH'' ''/tc'' (environ s))"
    "environ (prepare_env (spec_derived_request
        (sanitize_all_request\<lparr>package_path := p, build_path := b\<rparr>) ''thread'' short) s)
      = AList.update ''INDEXSTOREDB_ENABLED_THREAD_SANITIZER'' ''1''
          (AList.update ''INDEXSTOREDB_TOOLCHAIN_BIN_PATH'' ''/tc'' (environ s))"
    "environ (prepare_env (spec_derived_request
        (sanitize_all_request\<lparr>package_path := p, build_path := b\<rparr>) ''undefined'' short) s)
      = AList.update ''UBSAN_OPTIONS''
          (''halt_on_error=true,suppressions='' @ path_join p [''Utilities'', ''ubsan_supressions.supp''])
          (AList.update ''INDEXSTOREDB_TOOLCHAIN_BIN_PATH'' ''/tc'' (environ s))"
    for p b short s
    by (simp_all add: prepare_env_def environ_set_def spec_derived_request_def
        sanitize_all_request_def cli_defaults_def truthy_def items_def Let_def)
  have flags: "get_swiftpm_options (plain_world ''Darwin'' 0)
        (spec_derived_request (sanitize_all_request\<lparr>package_path := p, build_path := b\<rparr>) san short)
      = [''--package-path'', p, ''--build-path'', path_join b [''test-'' @ short],
         ''--configuration'', ''debug'', ''--sanitize='' @ san]" for p b san short
    by (simp add: get_swiftpm_options_def plain_world_def spec_derived_request_def
        sanitize_all_request_def cli_defaults_def truthy_def items_def)
  have sa: "sanitize_all sanitize_all_request"
    by (simp add: sanitize_all_request_def)
  have pl: "platform_system (plain_world ''Darwin'' 0) \<noteq> ''Linux''"
    by (simp add: plain_world_def)
  have x: "swift_exec_of (sanitize_all_request\<lparr>package_path := p, build_path := b\<rparr>) = ''/tc/bin/swift''"
    for p b
    by (simp add: swift_exec_of_def sanitize_all_request_def cli_defaults_def
        path_join_def join_step_def endswith_sep_def)
  show ?thesis
    unfolding main_from_base [OF nc] canonical_sanitize_all_request
    by (simp add: spec_plan_def pl sa hb acts envs flags x print_def fresh_def
        path_join_def join_step_def endswith_sep_def)
qed

end
